theory Spec2Isabelle
  imports Main "HOL-Library.Word"
begin

section \<open>Python strings and byte strings\<close>

text \<open>
  A Python \<open>str\<close> is modelled as a \<open>string\<close> whose characters are the code points
  below 256; a \<open>bytes\<close> value is a list of 8-bit words.
\<close>

type_synonym bytes = "8 word list"

text \<open>\<open>str.lower\<close> on the code points below 256: the ASCII capitals and the Latin-1
  capitals (all of \<open>0xC0..0xDE\<close> but the multiplication sign) move up by 32.\<close>

definition lower_char :: "char \<Rightarrow> char" where
  "lower_char c =
     (let n = (of_char c :: nat)
      in if (65 \<le> n \<and> n \<le> 90) \<or> (192 \<le> n \<and> n \<le> 222 \<and> n \<noteq> 215)
         then char_of (n + 32) else c)"

definition lower :: "string \<Rightarrow> string" where
  "lower s = map lower_char s"

text \<open>\<open>is_prefix p s\<close> is \<open>s.startswith(p)\<close>; \<open>contains sub s\<close> is Python's
  \<open>sub in s\<close> on strings.\<close>

fun is_prefix :: "string \<Rightarrow> string \<Rightarrow> bool" where
  "is_prefix [] s = True"
| "is_prefix (p # ps) [] = False"
| "is_prefix (p # ps) (c # cs) = (p = c \<and> is_prefix ps cs)"

fun contains :: "string \<Rightarrow> string \<Rightarrow> bool" where
  "contains sub [] = (sub = [])"
| "contains sub (c # cs) = (is_prefix sub (c # cs) \<or> contains sub cs)"

text \<open>\<open>str(n)\<close> for an integer: the decimal digits, with a minus sign when negative.\<close>

definition digit_char :: "nat \<Rightarrow> char" where
  "digit_char d = char_of (48 + d)"

fun str_nat :: "nat \<Rightarrow> string" where
  "str_nat n = (if n < 10 then [digit_char n] else str_nat (n div 10) @ [digit_char (n mod 10)])"

declare str_nat.simps [simp del]

definition str_int :: "int \<Rightarrow> string" where
  "str_int i = (if i < 0 then CHR ''-'' # str_nat (nat (- i)) else str_nat (nat i))"

text \<open>\<open>sep.join(xs)\<close>.\<close>

fun join :: "string \<Rightarrow> string list \<Rightarrow> string" where
  "join sep [] = []"
| "join sep [x] = x"
| "join sep (x # y # ys) = x @ sep @ join sep (y # ys)"

section \<open>Header lists\<close>

text \<open>
  Werkzeug's \<open>Headers\<close> is an ordered list of name/value pairs whose names compare
  without regard to case. \<open>add\<close> appends a pair; \<open>headers[k] = v\<close> replaces the first
  pair of that name and drops the later ones, or appends when there is none;
  \<open>k in headers\<close> and \<open>get\<close> look the name up.
\<close>

type_synonym headers = "(string \<times> string) list"

definition same_name :: "string \<Rightarrow> string \<times> string \<Rightarrow> bool" where
  "same_name k kv = (lower (fst kv) = lower k)"

definition headers_contains :: "string \<Rightarrow> headers \<Rightarrow> bool" where
  "headers_contains k hs = (filter (same_name k) hs \<noteq> [])"

definition headers_get :: "headers \<Rightarrow> string \<Rightarrow> string \<Rightarrow> string" where
  "headers_get hs k dflt = (case filter (same_name k) hs of [] \<Rightarrow> dflt | kv # _ \<Rightarrow> snd kv)"

definition headers_add :: "string \<Rightarrow> string \<Rightarrow> headers \<Rightarrow> headers" where
  "headers_add k v hs = hs @ [(k, v)]"

fun headers_set :: "string \<Rightarrow> string \<Rightarrow> headers \<Rightarrow> headers" where
  "headers_set k v [] = [(k, v)]"
| "headers_set k v (kv # hs) =
     (if same_name k kv then (k, v) # filter (\<lambda>t. \<not> same_name k t) hs
      else kv # headers_set k v hs)"

section \<open>The after-request filter\<close>

text \<open>The part of the incoming request that the filter reads.\<close>

record request_env =
  req_headers :: headers

record response =
  status_code :: int
  direct_passthrough :: bool
  data :: bytes
  headers :: headers

definition get_data :: "response \<Rightarrow> bytes" where
  "get_data resp = data resp"

text \<open>\<open>Response.set_data\<close> replaces the body and sets \<open>Content-Length\<close> to its
  length.\<close>

definition set_data :: "bytes \<Rightarrow> response \<Rightarrow> response" where
  "set_data v resp =
     resp\<lparr>data := v, headers := headers_set ''Content-Length'' (str_nat (length v)) (headers resp)\<rparr>"

definition set_header :: "string \<Rightarrow> string \<Rightarrow> response \<Rightarrow> response" where
  "set_header k v resp = resp\<lparr>headers := headers_set k v (headers resp)\<rparr>"

definition add_header :: "string \<Rightarrow> string \<Rightarrow> response \<Rightarrow> response" where
  "add_header k v resp = resp\<lparr>headers := headers_add k v (headers resp)\<rparr>"

text \<open>The three headers that \<open>after_request\<close> adds to every response.\<close>

definition add_cors :: "response \<Rightarrow> response" where
  "add_cors resp =
     add_header ''Access-Control-Allow-Methods'' ''GET, POST''
       (add_header ''Access-Control-Allow-Headers'' ''Content-Type''
         (add_header ''Access-Control-Allow-Origin'' ''*'' resp))"

text \<open>The test of \<open>after_request\<close> under which the response is returned as it is
  (after the three headers were added).\<close>

definition skip_compress :: "request_env \<Rightarrow> response \<Rightarrow> bool" where
  "skip_compress req resp =
     (let accept_encoding = headers_get (req_headers req) ''Accept-Encoding'' ''''
      in status_code resp < 200
         \<or> status_code resp \<ge> 300
         \<or> direct_passthrough resp
         \<or> length (get_data resp) < 500
         \<or> \<not> contains ''gzip'' (lower accept_encoding)
         \<or> headers_contains ''Content-Encoding'' (headers resp))"

text \<open>\<open>after_request\<close>. The parameter \<open>gzip_compress\<close> is the library's
  \<open>gzip.compress(data, compresslevel)\<close>.\<close>

definition after_request :: "(bytes \<Rightarrow> nat \<Rightarrow> bytes) \<Rightarrow> request_env \<Rightarrow> response \<Rightarrow> response" where
  "after_request gzip_compress req response0 =
     (let response1 = add_cors response0
      in if skip_compress req response1 then response1
         else
           (let compressed_data = gzip_compress (get_data response1) 4;
                response2 = set_data compressed_data response1;
                response3 = set_header ''Content-Encoding'' ''gzip'' response2;
                response4 = set_header ''Content-Length'' (str_nat (length (get_data response3))) response3
            in response4))"

section \<open>JSON values and Python values\<close>

text \<open>
  A parsed JSON document, which is also the model of the Python values the handlers pass
  around: \<open>JNull\<close> is \<open>None\<close>, \<open>JObj\<close> is a \<open>dict\<close> in insertion order (its keys are
  distinct), \<open>JArr\<close> a \<open>list\<close>. The type \<open>'f\<close> is Python's \<open>float\<close>.
\<close>

datatype 'f json =
    JNull
  | JBool bool
  | JInt int
  | JFloat 'f
  | JStr string
  | JArr "'f json list"
  | JObj "(string \<times> 'f json) list"

type_synonym 'f pydict = "(string \<times> 'f json) list"

text \<open>\<open>d.get(k, None)\<close> and \<open>d[k] = v\<close> on a dictionary kept in insertion order.\<close>

definition dict_get :: "('k \<times> 'v) list \<Rightarrow> 'k \<Rightarrow> 'v option" where
  "dict_get d k = map_of d k"

fun dict_set :: "'k \<Rightarrow> 'v \<Rightarrow> ('k \<times> 'v) list \<Rightarrow> ('k \<times> 'v) list" where
  "dict_set k v [] = [(k, v)]"
| "dict_set k v (kv # d) = (if fst kv = k then (k, v) # d else kv # dict_set k v d)"

section \<open>Exceptions and the error handlers\<close>

text \<open>
  The exceptions that reach the handlers. \<open>HTTPException\<close> carries werkzeug's \<open>code\<close> and
  \<open>description\<close>; the others are not instances of it.
\<close>

datatype exn =
    HTTPException int string
  | InvalidBoundingBoxError string
  | ValueError string
  | TypeError string
  | AttributeError string
  | OverflowError string
  | StoreError string

fun is_HTTPException :: "exn \<Rightarrow> bool" where
  "is_HTTPException (HTTPException c d) = True"
| "is_HTTPException e = False"

text \<open>\<open>abort(code, description)\<close> raises the HTTP exception of that code.\<close>

definition abort :: "int \<Rightarrow> string \<Rightarrow> exn + 'a" where
  "abort c d = Inl (HTTPException c d)"

text \<open>The class attributes \<open>InternalServerError.code\<close> and
  \<open>InternalServerError.description\<close> as werkzeug defines them.\<close>

definition InternalServerError_code :: int where
  "InternalServerError_code = 500"

definition InternalServerError_description :: string where
  "InternalServerError_description =
     ''The server encountered an internal error and was unable to'' @
     '' complete your request. Either the server is overloaded or'' @
     '' there is an error in the application.''"

text \<open>A handler returns the body and the status; the application log is the list of the
  exceptions given to \<open>current_app.logger.exception\<close>, latest last.\<close>

type_synonym 'f error_response = "'f json \<times> int"

fun handle_exception :: "exn \<Rightarrow> exn list \<Rightarrow> 'f error_response \<times> exn list" where
  "handle_exception (HTTPException c d) log =
     ((JObj [(''code'', JInt c), (''description'', JStr d)], c), log)"
| "handle_exception e log =
     ((JObj [(''code'', JInt InternalServerError_code),
             (''description'', JStr InternalServerError_description)],
       InternalServerError_code),
      log @ [e])"

text \<open>Modelled from the spec: \<open>str(e)\<close> of an exception. The class
  \<open>InvalidBoundingBoxError\<close> is defined in the data module, which is not at hand; its
  \<open>str\<close> is the error's message, the argument of the constructor here.\<close>

fun str_exn :: "exn \<Rightarrow> string" where
  "str_exn (HTTPException c d) = d"
| "str_exn (InvalidBoundingBoxError m) = m"
| "str_exn (ValueError m) = m"
| "str_exn (TypeError m) = m"
| "str_exn (AttributeError m) = m"
| "str_exn (OverflowError m) = m"
| "str_exn (StoreError m) = m"

definition handle_exception_bbox :: "exn \<Rightarrow> 'f error_response" where
  "handle_exception_bbox e =
     (JObj [(''code'', JStr ''400''), (''description'', JStr (str_exn e))], 400)"

text \<open>
  The two handlers are registered with \<open>errorhandler(Exception)\<close> and
  \<open>errorhandler(InvalidBoundingBoxError)\<close>. Flask gives an exception to the handler
  registered for the nearest class of its own: the second for a bounding-box error, the
  first for everything else.
\<close>

fun handle_user_exception :: "exn \<Rightarrow> exn list \<Rightarrow> 'f error_response \<times> exn list" where
  "handle_user_exception (InvalidBoundingBoxError m) log =
     (handle_exception_bbox (InvalidBoundingBoxError m), log)"
| "handle_user_exception e log = handle_exception e log"

section \<open>Python's \<open>int\<close> and \<open>str\<close>\<close>

text \<open>The white space that \<open>int\<close> skips at both ends of a string, among the code points
  below 256: tab to carriage return, the space, and the two that lie above 127 (next line
  and no-break space). The separators 28 to 31 are not skipped.\<close>

definition is_space :: "char \<Rightarrow> bool" where
  "is_space c =
     (let n = (of_char c :: nat)
      in (9 \<le> n \<and> n \<le> 13) \<or> n = 32 \<or> n = 133 \<or> n = 160)"

definition strip :: "string \<Rightarrow> string" where
  "strip s = rev (dropWhile is_space (rev (dropWhile is_space s)))"

definition is_digit :: "char \<Rightarrow> bool" where
  "is_digit c = (let n = (of_char c :: nat) in 48 \<le> n \<and> n \<le> 57)"

definition digit_val :: "char \<Rightarrow> nat" where
  "digit_val c = of_char c - 48"

text \<open>The digits of a decimal literal: single underscores are allowed between digits.
  The flag says that the character before was a digit.\<close>

fun parse_dec :: "bool \<Rightarrow> nat \<Rightarrow> string \<Rightarrow> nat option" where
  "parse_dec prev acc [] = (if prev then Some acc else None)"
| "parse_dec prev acc (c # cs) =
     (if is_digit c then parse_dec True (10 * acc + digit_val c) cs
      else if c = CHR ''_'' \<and> prev then parse_dec False acc cs
      else None)"

text \<open>The limit on the number of digits that \<open>int\<close> converts
  (\<open>sys.int_max_str_digits\<close>, 4300 unless configured): \<open>lim = 0\<close> is no limit, as in the
  versions of Python that have none, and the limit never applies to 640 digits or fewer.\<close>

definition too_many_digits :: "nat \<Rightarrow> string \<Rightarrow> bool" where
  "too_many_digits lim s =
     (let n = length (filter is_digit s) in lim > 0 \<and> n > 640 \<and> n > lim)"

text \<open>\<open>int(s)\<close> for a string, base ten: \<open>None\<close> is \<open>ValueError\<close>.\<close>

definition int_of_str :: "nat \<Rightarrow> string \<Rightarrow> int option" where
  "int_of_str lim s =
     (if too_many_digits lim (strip s) then None
      else
        (case strip s of
           [] \<Rightarrow> None
         | c # cs \<Rightarrow>
             if c = CHR ''-'' then map_option (\<lambda>n. - int n) (parse_dec False 0 cs)
             else if c = CHR ''+'' then map_option int (parse_dec False 0 cs)
             else map_option int (parse_dec False 0 (c # cs))))"

text \<open>
  The builtins that are parameters. What the program observes of a \<open>float\<close> is its \<open>str\<close>
  and its conversion by \<open>int\<close>, which truncates a finite value and raises on a NaN or an
  infinity. \<open>str\<close> of a list or dictionary, the digit limit of \<open>int\<close>, and the text of the
  exception that \<open>int\<close> raises on a value, which names the value and differs between
  versions of Python, are parameters too.
\<close>

datatype float_int_result = Truncated int | NaN | Infinite

record 'f builtins =
  float_str :: "'f \<Rightarrow> string"
  float_int :: "'f \<Rightarrow> float_int_result"
  container_str :: "'f json \<Rightarrow> string"
  int_max_str_digits :: nat
  int_error_text :: "'f json \<Rightarrow> string"

fun py_int :: "'f builtins \<Rightarrow> 'f json \<Rightarrow> exn + int" where
  "py_int py (JInt i) = Inr i"
| "py_int py (JBool b) = Inr (if b then 1 else 0)"
| "py_int py (JFloat x) =
     (case float_int py x of
        Truncated i \<Rightarrow> Inr i
      | NaN \<Rightarrow> Inl (ValueError (int_error_text py (JFloat x)))
      | Infinite \<Rightarrow> Inl (OverflowError (int_error_text py (JFloat x))))"
| "py_int py (JStr s) =
     (case int_of_str (int_max_str_digits py) s of
        Some i \<Rightarrow> Inr i
      | None \<Rightarrow> Inl (ValueError (int_error_text py (JStr s))))"
| "py_int py v = Inl (TypeError (int_error_text py v))"

text \<open>\<open>str\<close> of a value. An integer of a parsed body has no more digits than the parser
  accepts, so \<open>str\<close> does not fail on it.\<close>

fun py_str :: "'f builtins \<Rightarrow> 'f json \<Rightarrow> string" where
  "py_str py JNull = ''None''"
| "py_str py (JBool b) = (if b then ''True'' else ''False'')"
| "py_str py (JInt i) = str_int i"
| "py_str py (JFloat x) = float_str py x"
| "py_str py (JStr s) = s"
| "py_str py v = container_str py v"

text \<open>Iterating a value, as a list comprehension does: a list gives its elements, a string
  its characters, a dictionary its keys; anything else raises \<open>TypeError\<close>.\<close>

fun py_iter :: "'f json \<Rightarrow> exn + 'f json list" where
  "py_iter (JArr xs) = Inr xs"
| "py_iter (JStr s) = Inr (map (\<lambda>c. JStr [c]) s)"
| "py_iter (JObj d) = Inr (map (\<lambda>kv. JStr (fst kv)) d)"
| "py_iter v = Inl (TypeError ''object is not iterable'')"

text \<open>\<open>",".join(xs)\<close> on a list of values: every item has to be a string.\<close>

fun str_items :: "'f json list \<Rightarrow> exn + string list" where
  "str_items [] = Inr []"
| "str_items (JStr s # xs) =
     (case str_items xs of Inl e \<Rightarrow> Inl e | Inr ss \<Rightarrow> Inr (s # ss))"
| "str_items (v # xs) = Inl (TypeError ''sequence item: expected str instance'')"

definition join_values :: "'f json list \<Rightarrow> exn + string" where
  "join_values xs = (case str_items xs of Inl e \<Rightarrow> Inl e | Inr ss \<Rightarrow> Inr (join '','' ss))"

section \<open>Query parameters and URL encoding\<close>

text \<open>
  \<open>request.args\<close> is a werkzeug \<open>MultiDict\<close>: a dictionary, in insertion order, from a key
  to the non-empty list of the values given for it. \<open>get\<close> reads the first value of a key,
  \<open>args[k] = v\<close> replaces the whole list of \<open>k\<close> by \<open>[v]\<close>, \<open>len\<close> counts the keys and
  \<open>to_dict()\<close> keeps the first value of every key.
\<close>

type_synonym multidict = "(string \<times> string list) list"

definition args_get :: "multidict \<Rightarrow> string \<Rightarrow> string option" where
  "args_get a k =
     (case dict_get a k of None \<Rightarrow> None | Some [] \<Rightarrow> None | Some (v # vs) \<Rightarrow> Some v)"

definition args_set :: "string \<Rightarrow> string \<Rightarrow> multidict \<Rightarrow> multidict" where
  "args_set k v a = dict_set k [v] a"

definition to_dict :: "multidict \<Rightarrow> (string \<times> string) list" where
  "to_dict a = concat (map (\<lambda>kvs. case snd kvs of [] \<Rightarrow> [] | v # vs \<Rightarrow> [(fst kvs, v)]) a)"

definition multi_items :: "multidict \<Rightarrow> (string \<times> string) list" where
  "multi_items a = concat (map (\<lambda>kvs. map (\<lambda>v. (fst kvs, v)) (snd kvs)) a)"

text \<open>
  werkzeug's \<open>url_encode\<close> writes every pair as \<open>key=value\<close>, both quoted by
  \<open>url_quote_plus\<close>, and joins the pairs with \<open>&\<close>. Quoting works on the UTF-8 bytes of
  the string: letters, digits and \<open>-._~\<close> stay, a space becomes \<open>+\<close>, every other byte
  becomes \<open>%XX\<close> in upper-case hexadecimal.
\<close>

definition utf8 :: "char \<Rightarrow> nat list" where
  "utf8 c = (let n = (of_char c :: nat) in if n < 128 then [n] else [192 + n div 64, 128 + n mod 64])"

definition always_safe :: "nat \<Rightarrow> bool" where
  "always_safe b =
     ((97 \<le> b \<and> b \<le> 122) \<or> (65 \<le> b \<and> b \<le> 90) \<or> (48 \<le> b \<and> b \<le> 57)
      \<or> b = 45 \<or> b = 46 \<or> b = 95 \<or> b = 126)"

definition hex_digit :: "nat \<Rightarrow> char" where
  "hex_digit d = (if d < 10 then char_of (48 + d) else char_of (55 + d))"

definition quote_byte :: "nat \<Rightarrow> string" where
  "quote_byte b =
     (if b = 32 then ''+''
      else if always_safe b then [char_of b]
      else [CHR ''%'', hex_digit (b div 16), hex_digit (b mod 16)])"

definition url_quote_plus :: "string \<Rightarrow> string" where
  "url_quote_plus s = concat (map quote_byte (concat (map utf8 s)))"

definition encode_pair :: "string \<times> string \<Rightarrow> string" where
  "encode_pair kv = url_quote_plus (fst kv) @ ''='' @ url_quote_plus (snd kv)"

definition url_encode_items :: "(string \<times> string) list \<Rightarrow> string" where
  "url_encode_items kvs = join ''&'' (map encode_pair kvs)"

definition url_encode :: "multidict \<Rightarrow> string" where
  "url_encode a = url_encode_items (multi_items a)"

text \<open>\<open>s.split(",")\<close>.\<close>

fun split_on :: "char \<Rightarrow> string \<Rightarrow> string list" where
  "split_on sep [] = [[]]"
| "split_on sep (c # cs) =
     (if c = sep then [] # split_on sep cs
      else (case split_on sep cs of [] \<Rightarrow> [[c]] | w # ws \<Rightarrow> (c # w) # ws))"

section \<open>Requests, the catalog store and the configuration\<close>

datatype http_method = GET | POST | HEAD

text \<open>The body of a request whose content type is JSON: \<open>get_json\<close> returns the parsed
  document, or raises \<open>BadRequest\<close> (status 400) with the parser's message.\<close>

datatype 'f body = Malformed string | Parsed "'f json"

record 'f request =
  req_method :: http_method
  req_args :: multidict
  req_is_json :: bool
  req_body :: "'f body"

definition get_json :: "'f request \<Rightarrow> exn + 'f json" where
  "get_json req =
     (case req_body req of Malformed msg \<Rightarrow> Inl (HTTPException 400 msg) | Parsed j \<Rightarrow> Inr j)"

text \<open>Modelled from the spec: the page of items that the catalog store returns, whose class
  the data module takes from its database library. The page numbers \<open>next_num\<close> and
  \<open>prev_num\<close> are read only when \<open>has_next\<close> and \<open>has_prev\<close> hold.\<close>

record 'i page_result =
  items :: "'i list"
  total :: int
  per_page :: int
  has_next :: bool
  has_prev :: bool
  next_num :: int
  prev_num :: int

text \<open>
  What the module imports: the base URL and the asset arguments of the configuration, the
  builtins that depend on \<open>float\<close>, the store's \<open>get_collection_items\<close>, which takes
  keyword arguments (name and value, in the order of the call), and \<open>make_geojson\<close>, which
  takes the items, the context links and the \<open>assets_kwargs\<close> suffix.
\<close>

type_synonym 'f kwargs = "(string \<times> 'f json) list"

type_synonym context_link = "(string \<times> string) list"

record ('f, 'i, 'feat) env =
  BASE_URL :: string
  BDC_STAC_ASSETS_ARGS :: "string option"
  builtins :: "'f builtins"
  get_collection_items :: "'f kwargs \<Rightarrow> exn + 'i page_result"
  make_geojson :: "'i list \<Rightarrow> context_link list \<Rightarrow> string \<Rightarrow> 'feat list"

definition bind_exn :: "exn + 'a \<Rightarrow> ('a \<Rightarrow> exn + 'b) \<Rightarrow> exn + 'b" where
  "bind_exn m f = (case m of Inl e \<Rightarrow> Inl e | Inr x \<Rightarrow> f x)"

text \<open>\<open>get_assets_kwargs\<close>: the configured arguments that the request carries, and the access
  token when there is one, as a query string.\<close>

definition get_assets_kwargs :: "('f, 'i, 'feat) env \<Rightarrow> multidict \<Rightarrow> string \<Rightarrow> string" where
  "get_assets_kwargs e args access_token =
     (case BDC_STAC_ASSETS_ARGS e of
        None \<Rightarrow> ''''
      | Some cfg \<Rightarrow>
          if cfg = [] then ''''
          else
            (let d0 = foldl (\<lambda>d arg. case args_get args arg of None \<Rightarrow> d
                                        | Some v \<Rightarrow> dict_set arg v d)
                        [] (split_on CHR '','' cfg);
                 d1 = (if access_token \<noteq> [] then dict_set ''access_token'' access_token d0 else d0)
             in if d1 = [] then ''''
                else if url_encode_items d1 \<noteq> [] then ''?'' @ url_encode_items d1 else ''''))"

section \<open>Objects that are copied and updated\<close>

text \<open>
  \<open>stac_search\<close> copies the parsed request body with \<open>deepcopy\<close> and assigns to a key of
  the copy. To tell a copy from an alias, dictionaries that are updated live in a store:
  a list of dictionaries, an object being its index. \<open>deepcopy\<close> allocates a new object
  with the same content; an assignment \<open>o[k] = v\<close> changes the object \<open>o\<close> in the store.
  The parsed body of the request is the object \<open>request_json\<close>, the first of the store.
\<close>

type_synonym 'f heap = "'f pydict list"

definition request_json :: nat where
  "request_json = 0"

definition deepcopy :: "'f heap \<Rightarrow> nat \<Rightarrow> nat \<times> 'f heap" where
  "deepcopy h a = (length h, h @ [h ! a])"

definition setitem :: "nat \<Rightarrow> string \<Rightarrow> 'f json \<Rightarrow> 'f heap \<Rightarrow> 'f heap" where
  "setitem a k v h = h[a := dict_set k v (h ! a)]"

section \<open>The search endpoint\<close>

text \<open>The local variables that \<open>stac_search\<close> fills from the request and passes to the
  store; \<open>JNull\<close> is \<open>None\<close>.\<close>

record 'f search_params =
  bbox :: "'f json"
  datetime :: "'f json"
  ids :: "'f json"
  collections :: "'f json"
  page :: "'f json"
  limit :: "'f json"
  intersects :: "'f json"
  query :: "'f json"

definition json_get :: "'f pydict \<Rightarrow> string \<Rightarrow> 'f json \<Rightarrow> 'f json" where
  "json_get d k dflt = (case dict_get d k of None \<Rightarrow> dflt | Some v \<Rightarrow> v)"

text \<open>\<open>request_json.get\<close> needs a dictionary: any other JSON document has no \<open>get\<close>.\<close>

definition as_dict :: "'f json \<Rightarrow> exn + 'f pydict" where
  "as_dict j =
     (case j of JObj d \<Rightarrow> Inr d | _ \<Rightarrow> Inl (AttributeError ''object has no attribute get''))"

text \<open>\<open>",".join([str(x) for x in bbox])\<close> when \<open>bbox\<close> is not \<open>None\<close>.\<close>

definition join_str :: "'f builtins \<Rightarrow> 'f json \<Rightarrow> exn + 'f json" where
  "join_str py v =
     (case v of
        JNull \<Rightarrow> Inr JNull
      | _ \<Rightarrow> bind_exn (py_iter v) (\<lambda>xs. Inr (JStr (join '','' (map (py_str py) xs)))))"

text \<open>\<open>",".join([x for x in ids])\<close> when \<open>ids\<close> is not \<open>None\<close>.\<close>

definition join_ids :: "'f json \<Rightarrow> exn + 'f json" where
  "join_ids v =
     (case v of
        JNull \<Rightarrow> Inr JNull
      | _ \<Rightarrow> bind_exn (py_iter v) (\<lambda>xs. bind_exn (join_values xs) (\<lambda>s. Inr (JStr s))))"

definition arg_or_none :: "multidict \<Rightarrow> string \<Rightarrow> 'f json" where
  "arg_or_none a k = (case args_get a k of None \<Rightarrow> JNull | Some s \<Rightarrow> JStr s)"

definition arg_or :: "multidict \<Rightarrow> string \<Rightarrow> 'f json \<Rightarrow> 'f json" where
  "arg_or a k dflt = (case args_get a k of None \<Rightarrow> dflt | Some s \<Rightarrow> JStr s)"

text \<open>The branch of a POST request with a JSON body.\<close>

definition post_params :: "'f builtins \<Rightarrow> 'f pydict \<Rightarrow> exn + 'f search_params" where
  "post_params py d =
     bind_exn (join_str py (json_get d ''bbox'' JNull)) (\<lambda>bbox'.
     bind_exn (join_ids (json_get d ''ids'' JNull)) (\<lambda>ids'.
     bind_exn (join_ids (json_get d ''collections'' JNull)) (\<lambda>collections'.
     bind_exn (py_int py (json_get d ''page'' (JInt 1))) (\<lambda>page'.
     bind_exn (py_int py (json_get d ''limit'' (JInt 10))) (\<lambda>limit'.
     Inr \<lparr>bbox = bbox', datetime = json_get d ''datetime'' JNull, ids = ids',
          collections = collections', page = JInt page', limit = JInt limit',
          intersects = json_get d ''intersects'' JNull,
          query = json_get d ''query'' JNull\<rparr>)))))"

text \<open>The branch of a GET request.\<close>

definition get_params :: "'f builtins \<Rightarrow> multidict \<Rightarrow> exn + 'f search_params" where
  "get_params py a =
     bind_exn (py_int py (arg_or a ''page'' (JInt 1))) (\<lambda>page'.
     bind_exn (py_int py (arg_or a ''limit'' (JInt 10))) (\<lambda>limit'.
     Inr \<lparr>bbox = arg_or_none a ''bbox'', datetime = arg_or_none a ''datetime'',
          ids = arg_or_none a ''ids'', collections = arg_or_none a ''collections'',
          page = JInt page', limit = JInt limit', intersects = JNull, query = JNull\<rparr>))"

definition no_params :: "'f search_params" where
  "no_params =
     \<lparr>bbox = JNull, datetime = JNull, ids = JNull, collections = JNull, page = JNull,
      limit = JNull, intersects = JNull, query = JNull\<rparr>"

text \<open>Lines 323 to 355 of \<open>stac_search\<close>: the variables, and the store of objects, which
  holds the parsed body when the request is a POST.\<close>

definition search_request_params ::
  "'f builtins \<Rightarrow> 'f request \<Rightarrow> exn + ('f search_params \<times> 'f heap)" where
  "search_request_params py req =
     (case req_method req of
        POST \<Rightarrow>
          if req_is_json req then
            bind_exn (get_json req) (\<lambda>j.
            bind_exn (as_dict j) (\<lambda>d.
            bind_exn (post_params py d) (\<lambda>p. Inr (p, [d]))))
          else abort 400 ''POST Request must be an application/json''
      | GET \<Rightarrow> bind_exn (get_params py (req_args req)) (\<lambda>p. Inr (p, []))
      | HEAD \<Rightarrow> Inr (no_params, []))"

text \<open>The keyword arguments of the call of \<open>get_collection_items\<close> in \<open>stac_search\<close>.\<close>

definition search_kwargs :: "string list \<Rightarrow> 'f search_params \<Rightarrow> 'f kwargs" where
  "search_kwargs roles p =
     [(''collections'', collections p), (''roles'', JArr (map JStr roles)),
      (''bbox'', bbox p), (''datetime'', datetime p), (''ids'', ids p), (''page'', page p),
      (''limit'', limit p), (''intersects'', intersects p), (''query'', query p)]"

text \<open>The canonical query of a request: the arguments that reach the store.\<close>

definition search_query :: "'f builtins \<Rightarrow> string list \<Rightarrow> 'f request \<Rightarrow> exn + 'f kwargs" where
  "search_query py roles req =
     bind_exn (search_request_params py req) (\<lambda>ph. Inr (search_kwargs roles (fst ph)))"

text \<open>A pagination link; \<open>body\<close> is an object of the store.\<close>

record link =
  href :: string
  rel :: string
  body :: "nat option"
  link_method :: "string option"
  merge :: "bool option"

definition search_href :: "('f, 'i, 'feat) env \<Rightarrow> multidict \<Rightarrow> string" where
  "search_href e args =
     BASE_URL e @ ''/search'' @ (if length args > 0 then ''?'' @ url_encode args else '''')"

text \<open>The four assignments made to a link of a POST request.\<close>

definition post_link :: "int \<Rightarrow> link \<Rightarrow> 'f heap \<Rightarrow> link \<times> 'f heap" where
  "post_link num l h =
     (let (a, h1) = deepcopy h request_json;
          h2 = setitem a ''page'' (JInt num) h1
      in (l\<lparr>body := Some a, link_method := Some ''POST'', merge := Some True\<rparr>, h2))"

text \<open>One of the two blocks of lines 389 to 418: the arguments, the links and the store
  before, the page number for the link, and the same three after. An integer assigned to
  \<open>args["page"]\<close> is written as \<open>url_encode\<close> prints it, by \<open>str\<close>.\<close>

definition search_page_link ::
  "('f, 'i, 'feat) env \<Rightarrow> http_method \<Rightarrow> string \<Rightarrow> int \<Rightarrow>
   multidict \<times> link list \<times> 'f heap \<Rightarrow> multidict \<times> link list \<times> 'f heap" where
  "search_page_link e m r num st =
     (let (args, links, h) = st;
          args' = (if m = GET then args_set ''page'' (str_int num) args else args);
          l = \<lparr>href = search_href e args', rel = r, body = None, link_method = None, merge = None\<rparr>;
          (l', h') = (if m = POST then post_link num l h else (l, h))
      in (args', links @ [l'], h'))"

definition search_links ::
  "('f, 'i, 'feat) env \<Rightarrow> 'f request \<Rightarrow> 'i page_result \<Rightarrow> 'f heap \<Rightarrow> link list \<times> 'f heap" where
  "search_links e req pg h0 =
     (let st0 = (req_args req, [], h0);
          st1 = (if has_next pg then search_page_link e (req_method req) ''next'' (next_num pg) st0
                 else st0);
          st2 = (if has_prev pg then search_page_link e (req_method req) ''prev'' (prev_num pg) st1
                 else st1)
      in (fst (snd st2), snd (snd st2)))"

text \<open>The response of the two item listings: a \<open>FeatureCollection\<close>.\<close>

record 'feat feature_collection =
  stac_version :: "string option"
  stac_extensions :: "string list option"
  fc_type :: string
  links :: "link list"
  fc_context :: "(string \<times> int) list"
  features :: "'feat list"

definition search_context_links :: "('f, 'i, 'feat) env \<Rightarrow> context_link list" where
  "search_context_links e =
     [[(''href'', BASE_URL e @ ''/collections/''), (''rel'', ''self'')],
      [(''href'', BASE_URL e @ ''/collections/''), (''rel'', ''parent'')],
      [(''href'', BASE_URL e @ ''/collections/''), (''rel'', ''collection'')],
      [(''href'', BASE_URL e @ ''/''), (''rel'', ''root'')]]"

text \<open>\<open>stac_search\<close>. The result is the dictionary that the view returns and the store
  that holds the bodies of its links.\<close>

definition stac_search ::
  "('f, 'i, 'feat) env \<Rightarrow> 'f request \<Rightarrow> string list \<Rightarrow> string \<Rightarrow>
   exn + ('feat feature_collection \<times> 'f heap)" where
  "stac_search e req roles access_token =
     bind_exn (search_request_params (builtins e) req) (\<lambda>ph.
     bind_exn (get_collection_items e (search_kwargs roles (fst ph))) (\<lambda>pg.
       (let fs = make_geojson e (items pg) (search_context_links e)
                   (get_assets_kwargs e (req_args req) access_token);
            lh = search_links e req pg (snd ph)
        in Inr (\<lparr>stac_version = None, stac_extensions = None, fc_type = ''FeatureCollection'',
                  links = fst lh,
                  fc_context = [(''matched'', total pg), (''returned'', int (length (items pg)))],
                  features = fs\<rparr>,
                snd lh))))"

text \<open>The body that a link carries in the serialised response.\<close>

definition link_body :: "'f heap \<Rightarrow> link \<Rightarrow> 'f pydict option" where
  "link_body h l = (case body l of None \<Rightarrow> None | Some a \<Rightarrow> Some (h ! a))"

section \<open>The items of a collection\<close>

definition items_href :: "('f, 'i, 'feat) env \<Rightarrow> string \<Rightarrow> multidict \<Rightarrow> string" where
  "items_href e collection_id args =
     BASE_URL e @ ''/collections/'' @ collection_id @ ''/items''
       @ (if length args > 0 then ''?'' @ url_encode args else '''')"

definition items_page_link ::
  "('f, 'i, 'feat) env \<Rightarrow> string \<Rightarrow> string \<Rightarrow> int \<Rightarrow>
   multidict \<times> link list \<Rightarrow> multidict \<times> link list" where
  "items_page_link e collection_id r num st =
     (let (args, links) = st;
          args' = args_set ''page'' (str_int num) args;
          l = \<lparr>href = items_href e collection_id args', rel = r, body = None, link_method = None,
               merge = None\<rparr>
      in (args', links @ [l]))"

definition items_links ::
  "('f, 'i, 'feat) env \<Rightarrow> string \<Rightarrow> multidict \<Rightarrow> 'i page_result \<Rightarrow> link list" where
  "items_links e collection_id args0 pg =
     (let st0 = (args0, []);
          st1 = (if has_next pg then items_page_link e collection_id ''next'' (next_num pg) st0
                 else st0);
          st2 = (if has_prev pg then items_page_link e collection_id ''prev'' (prev_num pg) st1
                 else st1)
      in snd st2)"

text \<open>The keyword arguments of the call in \<open>collection_items\<close>: the two named ones and the
  query parameters; Python raises \<open>TypeError\<close> when a keyword is given twice.\<close>

definition items_kwargs :: "string \<Rightarrow> string list \<Rightarrow> multidict \<Rightarrow> exn + 'f kwargs" where
  "items_kwargs collection_id roles a =
     (if dict_get (to_dict a) ''collection_id'' \<noteq> None \<or> dict_get (to_dict a) ''roles'' \<noteq> None
      then Inl (TypeError ''got multiple values for keyword argument'')
      else Inr ([(''collection_id'', JStr collection_id), (''roles'', JArr (map JStr roles))]
                @ map (\<lambda>kv. (fst kv, JStr (snd kv))) (to_dict a)))"

definition items_context_links :: "('f, 'i, 'feat) env \<Rightarrow> context_link list" where
  "items_context_links e =
     [[(''href'', BASE_URL e @ ''/collections/''), (''rel'', ''self''),
       (''type'', ''application/json''), (''title'', ''Link to this document'')],
      [(''href'', BASE_URL e @ ''/collections/''), (''rel'', ''parent''),
       (''type'', ''application/json''), (''title'', ''The collection related to this item'')],
      [(''href'', BASE_URL e @ ''/collections/''), (''rel'', ''collection''),
       (''type'', ''application/json''), (''title'', ''The collection related to this item'')],
      [(''href'', BASE_URL e @ ''/''), (''rel'', ''root''),
       (''type'', ''application/json''), (''title'', ''API landing page (root catalog)'')]]"

definition collection_items ::
  "('f, 'i, 'feat) env \<Rightarrow> 'f request \<Rightarrow> string \<Rightarrow> string list \<Rightarrow> string \<Rightarrow>
   exn + 'feat feature_collection" where
  "collection_items e req collection_id roles access_token =
     bind_exn (items_kwargs collection_id roles (req_args req)) (\<lambda>kw.
     bind_exn (get_collection_items e kw) (\<lambda>pg.
       (let fs = make_geojson e (items pg) (items_context_links e)
                   (get_assets_kwargs e (req_args req) access_token)
        in Inr \<lparr>stac_version = Some ''0.9.0'',
                 stac_extensions = Some [''checksum'', ''commons'', ''context'', ''eo''],
                 fc_type = ''FeatureCollection'',
                 links = items_links e collection_id (req_args req) pg,
                 fc_context = [(''matched'', total pg), (''returned'', int (length (items pg))),
                            (''limit'', per_page pg)],
                 features = fs\<rparr>)))"

section \<open>From a view to the response\<close>


section \<open>The conditions of compression\<close>

text \<open>The request accepts gzip: its \<open>Accept-Encoding\<close> header contains \<open>gzip\<close> in any
  mix of cases.\<close>

definition accepts_gzip :: "request_env \<Rightarrow> bool" where
  "accepts_gzip req = contains ''gzip'' (lower (headers_get (req_headers req) ''Accept-Encoding'' ''''))"

text \<open>The five conditions on the response that comes in and on the request, all together.\<close>

definition may_compress :: "request_env \<Rightarrow> response \<Rightarrow> bool" where
  "may_compress req resp =
     (200 \<le> status_code resp \<and> status_code resp < 300 \<and> \<not> direct_passthrough resp
      \<and> 500 \<le> length (data resp) \<and> accepts_gzip req
      \<and> \<not> headers_contains ''Content-Encoding'' (headers resp))"

definition cors_headers :: headers where
  "cors_headers =
     [(''Access-Control-Allow-Origin'', ''*''),
      (''Access-Control-Allow-Headers'', ''Content-Type''),
      (''Access-Control-Allow-Methods'', ''GET, POST'')]"

section \<open>Names for the statements about errors\<close>

fun is_InvalidBoundingBoxError :: "exn \<Rightarrow> bool" where
  "is_InvalidBoundingBoxError (InvalidBoundingBoxError m) = True"
| "is_InvalidBoundingBoxError e = False"

text \<open>The body and status of the generic internal-error response.\<close>

definition internal_error_response :: "'f error_response" where
  "internal_error_response =
     (JObj [(''code'', JInt 500),
            (''description'',
             JStr (''The server encountered an internal error and was unable to''
                   @ '' complete your request. Either the server is overloaded or''
                   @ '' there is an error in the application.''))],
      500)"



section \<open>Names for the statements about pagination links\<close>

text \<open>The link of a GET request for page \<open>num\<close>, a link that carries the arguments as they
  came, and the link of a POST request whose body is the object \<open>obj\<close>.\<close>

definition get_link :: "('f, 'i, 'feat) env \<Rightarrow> multidict \<Rightarrow> string \<Rightarrow> int \<Rightarrow> link" where
  "get_link e a r num =
     \<lparr>href = search_href e (args_set ''page'' (str_int num) a), rel = r, body = None,
      link_method = None, merge = None\<rparr>"

definition plain_link :: "('f, 'i, 'feat) env \<Rightarrow> multidict \<Rightarrow> string \<Rightarrow> link" where
  "plain_link e a r =
     \<lparr>href = search_href e a, rel = r, body = None, link_method = None, merge = None\<rparr>"

definition body_link :: "('f, 'i, 'feat) env \<Rightarrow> multidict \<Rightarrow> string \<Rightarrow> nat \<Rightarrow> link" where
  "body_link e a r obj =
     \<lparr>href = search_href e a, rel = r, body = Some obj, link_method = Some ''POST'',
      merge = Some True\<rparr>"

definition items_link :: "('f, 'i, 'feat) env \<Rightarrow> string \<Rightarrow> multidict \<Rightarrow> string \<Rightarrow> int \<Rightarrow> link" where
  "items_link e cid a r num =
     \<lparr>href = items_href e cid (args_set ''page'' (str_int num) a), rel = r, body = None,
      link_method = None, merge = None\<rparr>"

text \<open>The number of links of a relation; the page number a link is for; the query string
  that a link of a GET request carries; a query string that has \<open>page=n\<close> as one of its
  components.\<close>

definition rel_count :: "string \<Rightarrow> link list \<Rightarrow> nat" where
  "rel_count r ls = length (filter (\<lambda>l. rel l = r) ls)"

definition link_num :: "'i page_result \<Rightarrow> link \<Rightarrow> int" where
  "link_num pg l = (if rel l = ''next'' then next_num pg else prev_num pg)"

definition link_query :: "'f request \<Rightarrow> 'i page_result \<Rightarrow> link \<Rightarrow> string" where
  "link_query req pg l = url_encode (args_set ''page'' (str_int (link_num pg l)) (req_args req))"

definition page_query :: "int \<Rightarrow> string \<Rightarrow> bool" where
  "page_query n q = (\<exists>comps. q = join ''&'' comps \<and> ''page='' @ str_int n \<in> set comps)"

section \<open>The two forms of a search\<close>

text \<open>
  A search by bounding box, datetime, ids and collections, each optional. \<open>get_form\<close> is
  a query string that carries them as strings; \<open>post_form\<close> is a JSON body that carries the
  bounding box as an array of values and the ids and collections as arrays of strings.
  \<open>canonical_query\<close> is the query that reaches the store with the strings given.
  \<open>bbox_str\<close> and \<open>ids_str\<close> are the comma-joined forms of the arrays: the elements, a
  number as \<open>str\<close> prints it, with commas between.
\<close>

definition opt_entry :: "string \<Rightarrow> 'a option \<Rightarrow> (string \<times> 'a) list" where
  "opt_entry k vo = (case vo of None \<Rightarrow> [] | Some v \<Rightarrow> [(k, v)])"

definition get_form ::
  "string option \<Rightarrow> string option \<Rightarrow> string option \<Rightarrow> string option \<Rightarrow> multidict" where
  "get_form bs dt ns cs =
     opt_entry ''bbox'' (map_option (\<lambda>s. [s]) bs)
     @ opt_entry ''datetime'' (map_option (\<lambda>s. [s]) dt)
     @ opt_entry ''ids'' (map_option (\<lambda>s. [s]) ns)
     @ opt_entry ''collections'' (map_option (\<lambda>s. [s]) cs)"

definition post_form ::
  "'f json list option \<Rightarrow> string option \<Rightarrow> string list option \<Rightarrow> string list option \<Rightarrow>
   'f pydict" where
  "post_form b dt i c =
     opt_entry ''bbox'' (map_option JArr b)
     @ opt_entry ''datetime'' (map_option JStr dt)
     @ opt_entry ''ids'' (map_option (\<lambda>xs. JArr (map JStr xs)) i)
     @ opt_entry ''collections'' (map_option (\<lambda>xs. JArr (map JStr xs)) c)"

definition opt_str :: "string option \<Rightarrow> 'f json" where
  "opt_str so = (case so of None \<Rightarrow> JNull | Some s \<Rightarrow> JStr s)"

definition canonical_query ::
  "string list \<Rightarrow> string option \<Rightarrow> string option \<Rightarrow> string option \<Rightarrow> string option \<Rightarrow>
   'f kwargs" where
  "canonical_query roles bs dt ns cs =
     [(''collections'', opt_str cs),
      (''roles'', JArr (map JStr roles)),
      (''bbox'', opt_str bs),
      (''datetime'', opt_str dt),
      (''ids'', opt_str ns),
      (''page'', JInt 1), (''limit'', JInt 10), (''intersects'', JNull), (''query'', JNull)]"

definition bbox_str :: "'f builtins \<Rightarrow> 'f json list option \<Rightarrow> string option" where
  "bbox_str py b = map_option (\<lambda>xs. join '','' (map (py_str py) xs)) b"

definition ids_str :: "string list option \<Rightarrow> string option" where
  "ids_str i = map_option (join '','') i"

section \<open>Example inputs\<close>

text \<open>A stand-in for the compressor: three header bytes and the start of the data.\<close>

definition example_gzip :: "bytes \<Rightarrow> nat \<Rightarrow> bytes" where
  "example_gzip d lvl = [31, 139, 8] @ take 20 d"

definition example_request :: request_env where
  "example_request = \<lparr>req_headers = [(''Accept-Encoding'', ''deflate, GZip'')]\<rparr>"

text \<open>A response with the given status and passthrough flag and a body of \<open>n\<close> zero bytes.\<close>

definition example_response :: "int \<Rightarrow> bool \<Rightarrow> nat \<Rightarrow> response" where
  "example_response st pt n =
     \<lparr>status_code = st, direct_passthrough = pt, data = replicate n 0,
      headers = [(''Content-Type'', ''application/json'')]\<rparr>"

text \<open>
  The texts of the exceptions of \<open>int\<close> in Python 3.11. \<open>py_repr\<close> is \<open>repr\<close> of a string:
  double quotes when the string has a single quote and no double one; the quote and the
  backslash escaped; tab, line feed and carriage return by letter; other characters that
  do not print (below the space, 127 to 160, and the soft hyphen) as \<open>\xNN\<close>.
\<close>

definition repr_quote :: "string \<Rightarrow> char" where
  "repr_quote s = (if CHR 0x27 \<in> set s \<and> CHR 0x22 \<notin> set s then CHR 0x22 else CHR 0x27)"

definition printable :: "nat \<Rightarrow> bool" where
  "printable n = ((32 \<le> n \<and> n < 127) \<or> (161 \<le> n \<and> n \<noteq> 173))"

definition hex_lower :: "nat \<Rightarrow> char" where
  "hex_lower d = (if d < 10 then char_of (48 + d) else char_of (87 + d))"

definition repr_char :: "char \<Rightarrow> char \<Rightarrow> string" where
  "repr_char q c =
     (let n = (of_char c :: nat)
      in if c = q \<or> c = CHR 0x5C then [CHR 0x5C, c]
         else if n = 9 then [CHR 0x5C, CHR ''t'']
         else if n = 10 then [CHR 0x5C, CHR ''n'']
         else if n = 13 then [CHR 0x5C, CHR ''r'']
         else if printable n then [c]
         else [CHR 0x5C, CHR ''x'', hex_lower (n div 16), hex_lower (n mod 16)])"

definition py_repr :: "string \<Rightarrow> string" where
  "py_repr s = [repr_quote s] @ concat (map (repr_char (repr_quote s)) s) @ [repr_quote s]"

text \<open>The digits and underscores that \<open>int\<close> scans after the white space and the sign.\<close>

definition digit_run :: "string \<Rightarrow> string" where
  "digit_run s =
     takeWhile (\<lambda>c. is_digit c \<or> c = CHR ''_'')
       (case strip s of
          [] \<Rightarrow> []
        | c # cs \<Rightarrow> if c = CHR ''-'' \<or> c = CHR ''+'' then cs else c # cs)"

definition str_error_text :: "nat \<Rightarrow> string \<Rightarrow> string" where
  "str_error_text lim s =
     (if parse_dec False 0 (digit_run s) \<noteq> None \<and> too_many_digits lim (digit_run s)
      then ''Exceeds the limit ('' @ str_nat lim
             @ '' digits) for integer string conversion: value has ''
             @ str_nat (length (filter is_digit (digit_run s)))
             @ '' digits; use sys.set_int_max_str_digits() to increase the limit''
      else ''invalid literal for int() with base 10: '' @ take 200 (py_repr s))"

definition type_error_text :: "string \<Rightarrow> string" where
  "type_error_text tname =
     ''int() argument must be a string, a bytes-like object or a real number, not ''
       @ [CHR 0x27] @ tname @ [CHR 0x27]"

fun example_int_error_text :: "nat \<Rightarrow> ('f \<Rightarrow> float_int_result) \<Rightarrow> 'f json \<Rightarrow> string" where
  "example_int_error_text lim fint (JStr s) = str_error_text lim s"
| "example_int_error_text lim fint JNull = type_error_text ''NoneType''"
| "example_int_error_text lim fint (JArr xs) = type_error_text ''list''"
| "example_int_error_text lim fint (JObj d) = type_error_text ''dict''"
| "example_int_error_text lim fint (JFloat x) =
     (case fint x of
        NaN \<Rightarrow> ''cannot convert float NaN to integer''
      | Infinite \<Rightarrow> ''cannot convert float infinity to integer''
      | Truncated i \<Rightarrow> '''')"
| "example_int_error_text lim fint v = ''''"

text \<open>An environment for the examples: the only float is 0.0, the digit limit and the texts
  are those of Python 3.11, the store returns one fixed page whatever the query, and
  features are the items themselves.\<close>

definition example_builtins :: "unit builtins" where
  "example_builtins =
     \<lparr>float_str = (\<lambda>x. ''0.0''), float_int = (\<lambda>x. Truncated 0), container_str = (\<lambda>v. ''[]''),
      int_max_str_digits = 4300,
      int_error_text = example_int_error_text 4300 (\<lambda>x. Truncated 0)\<rparr>"

definition example_page :: "bool \<Rightarrow> bool \<Rightarrow> string page_result" where
  "example_page hn hp =
     \<lparr>items = [''item-3'', ''item-4''], total = 5, per_page = 2, has_next = hn, has_prev = hp,
      next_num = 3, prev_num = 1\<rparr>"

definition example_env :: "bool \<Rightarrow> bool \<Rightarrow> (unit, string, string) env" where
  "example_env hn hp =
     \<lparr>BASE_URL = ''http://localhost'', BDC_STAC_ASSETS_ARGS = None,
      builtins = example_builtins,
      get_collection_items = (\<lambda>kw. Inr (example_page hn hp)),
      make_geojson = (\<lambda>its ls suffix. its)\<rparr>"

definition example_get :: "multidict \<Rightarrow> unit request" where
  "example_get a = \<lparr>req_method = GET, req_args = a, req_is_json = False, req_body = Parsed JNull\<rparr>"

definition example_post :: "multidict \<Rightarrow> unit pydict \<Rightarrow> unit request" where
  "example_post a d =
     \<lparr>req_method = POST, req_args = a, req_is_json = True, req_body = Parsed (JObj d)\<rparr>"

text \<open>The responses to three example requests: a GET search with a next page, the items
  of a collection with both neighbours, and a POST search with both, with its store.\<close>

definition example_search_response :: "string feature_collection" where
  "example_search_response =
     \<lparr>stac_version = None, stac_extensions = None, fc_type = ''FeatureCollection'',
      links = [\<lparr>href = ''http://localhost/search?limit=2&page=3'', rel = ''next'', body = None,
                link_method = None, merge = None\<rparr>],
      fc_context = [(''matched'', 5), (''returned'', 2)],
      features = [''item-3'', ''item-4'']\<rparr>"

definition example_items_response :: "string feature_collection" where
  "example_items_response =
     \<lparr>stac_version = Some ''0.9.0'',
      stac_extensions = Some [''checksum'', ''commons'', ''context'', ''eo''],
      fc_type = ''FeatureCollection'',
      links = [\<lparr>href = ''http://localhost/collections/S2-16D/items?bbox=-60%2C-10%2C-50%2C0&page=3'',
                rel = ''next'', body = None, link_method = None, merge = None\<rparr>,
               \<lparr>href = ''http://localhost/collections/S2-16D/items?bbox=-60%2C-10%2C-50%2C0&page=1'',
                rel = ''prev'', body = None, link_method = None, merge = None\<rparr>],
      fc_context = [(''matched'', 5), (''returned'', 2), (''limit'', 2)],
      features = [''item-3'', ''item-4'']\<rparr>"

definition example_body :: "unit pydict" where
  "example_body = [(''ids'', JArr [JStr ''a'', JStr ''b'']), (''page'', JInt 2)]"

definition example_post_response :: "string feature_collection" where
  "example_post_response =
     \<lparr>stac_version = None, stac_extensions = None, fc_type = ''FeatureCollection'',
      links = [\<lparr>href = ''http://localhost/search'', rel = ''next'', body = Some 1,
                link_method = Some ''POST'', merge = Some True\<rparr>,
               \<lparr>href = ''http://localhost/search'', rel = ''prev'', body = Some 2,
                link_method = Some ''POST'', merge = Some True\<rparr>],
      fc_context = [(''matched'', 5), (''returned'', 2)],
      features = [''item-3'', ''item-4'']\<rparr>"

definition example_post_heap :: "unit heap" where
  "example_post_heap =
     [[(''ids'', JArr [JStr ''a'', JStr ''b'']), (''page'', JInt 2)],
      [(''ids'', JArr [JStr ''a'', JStr ''b'']), (''page'', JInt 3)],
      [(''ids'', JArr [JStr ''a'', JStr ''b'']), (''page'', JInt 1)]]"

section \<open>Properties of strings and header lists\<close>

lemma is_prefix_iff: "is_prefix p s \<longleftrightarrow> (\<exists>ss. s = p @ ss)"
  by (induction p s rule: is_prefix.induct) auto

lemma contains_iff: "contains sub s \<longleftrightarrow> (\<exists>ps ss. s = ps @ sub @ ss)"
proof (induction s)
  case Nil
  then show ?case by auto
next
  case (Cons c cs)
  show ?case
  proof
    assume "contains sub (c # cs)"
    then consider "is_prefix sub (c # cs)" | "contains sub cs" by auto
    then show "\<exists>ps ss. c # cs = ps @ sub @ ss"
    proof cases
      case 1
      then obtain ss where "c # cs = sub @ ss" by (auto simp: is_prefix_iff)
      then have "c # cs = [] @ sub @ ss" by simp
      then show ?thesis by blast
    next
      case 2
      then obtain ps ss where "cs = ps @ sub @ ss" using Cons.IH by blast
      then have "c # cs = (c # ps) @ sub @ ss" by simp
      then show ?thesis by blast
    qed
  next
    assume "\<exists>ps ss. c # cs = ps @ sub @ ss"
    then obtain ps ss where e: "c # cs = ps @ sub @ ss" by blast
    show "contains sub (c # cs)"
    proof (cases ps)
      case Nil
      then have "is_prefix sub (c # cs)" using e by (auto simp: is_prefix_iff)
      then show ?thesis by simp
    next
      case (Cons p ps')
      then have "cs = ps' @ sub @ ss" using e by simp
      then have "contains sub cs" using Cons.IH by blast
      then show ?thesis by simp
    qed
  qed
qed

lemma same_name_refl [simp]: "same_name k (k, v)"
  by (simp add: same_name_def)

lemma filter_headers_set_same:
  "filter (same_name k) (headers_set k v hs) = [(k, v)]"
  by (induction hs) (auto simp: filter_empty_conv)

lemma same_name_excl: "lower k' \<noteq> lower k \<Longrightarrow> same_name k' kv \<Longrightarrow> \<not> same_name k kv"
  by (simp add: same_name_def)

lemma filter_same_name_drop:
  "lower k' \<noteq> lower k \<Longrightarrow>
   filter (\<lambda>x. \<not> same_name k' x \<and> same_name k x) hs = filter (same_name k) hs"
  by (rule filter_cong) (auto dest: same_name_excl)

lemma filter_headers_set_other:
  "lower k' \<noteq> lower k \<Longrightarrow> filter (same_name k) (headers_set k' v hs) = filter (same_name k) hs"
proof (induction hs)
  case Nil
  then show ?case by (simp add: same_name_def)
next
  case (Cons kv hs)
  show ?case
  proof (cases "same_name k' kv")
    case True
    then have "\<not> same_name k kv" using Cons.prems by (rule same_name_excl [rotated])
    moreover have "\<not> same_name k (k', v)" using Cons.prems by (simp add: same_name_def)
    ultimately show ?thesis using True Cons.prems by (simp add: filter_same_name_drop)
  next
    case False
    then show ?thesis using Cons by simp
  qed
qed

lemma char_eq_code: "a = b \<longleftrightarrow> (of_char a :: nat) = of_char b"
  by simp

lemma of_char_lt: "(of_char c :: nat) < 256"
  by (metis char_of_comp_of_char of_char_of range_nat_of_char lessThan_iff atLeast0LessThan rangeI of_nat_id)

lemma lower_char_code: "(of_char (lower_char c) :: nat) =
   (let n = of_char c in if (65 \<le> n \<and> n \<le> 90) \<or> (192 \<le> n \<and> n \<le> 222 \<and> n \<noteq> 215) then n + 32 else n)"
  using of_char_lt [of c] by (auto simp: lower_char_def Let_def)

lemma lower_char_eq:
  "lower_char c = CHR ''g'' \<longleftrightarrow> c = CHR ''g'' \<or> c = CHR ''G''"
  "lower_char c = CHR ''z'' \<longleftrightarrow> c = CHR ''z'' \<or> c = CHR ''Z''"
  "lower_char c = CHR ''i'' \<longleftrightarrow> c = CHR ''i'' \<or> c = CHR ''I''"
  "lower_char c = CHR ''p'' \<longleftrightarrow> c = CHR ''p'' \<or> c = CHR ''P''"
  unfolding char_eq_code [of _ "CHR ''g''"] char_eq_code [of _ "CHR ''G''"]
    char_eq_code [of _ "CHR ''z''"] char_eq_code [of _ "CHR ''Z''"]
    char_eq_code [of _ "CHR ''i''"] char_eq_code [of _ "CHR ''I''"]
    char_eq_code [of _ "CHR ''p''"] char_eq_code [of _ "CHR ''P''"] lower_char_code
  by (auto simp: Let_def)

lemma lower_is_gzip:
  "lower m = ''gzip'' \<longleftrightarrow>
   (\<exists>a b c d. m = [a, b, c, d] \<and> (a = CHR ''g'' \<or> a = CHR ''G'') \<and> (b = CHR ''z'' \<or> b = CHR ''Z'')
      \<and> (c = CHR ''i'' \<or> c = CHR ''I'') \<and> (d = CHR ''p'' \<or> d = CHR ''P''))"
proof
  assume "lower m = ''gzip''"
  then obtain a b c d where "m = [a, b, c, d]"
    "lower_char a = CHR ''g''" "lower_char b = CHR ''z''" "lower_char c = CHR ''i''"
    "lower_char d = CHR ''p''"
    by (auto simp: lower_def map_eq_Cons_conv)
  then show "\<exists>a b c d. m = [a, b, c, d] \<and> (a = CHR ''g'' \<or> a = CHR ''G'') \<and> (b = CHR ''z'' \<or> b = CHR ''Z'')
      \<and> (c = CHR ''i'' \<or> c = CHR ''I'') \<and> (d = CHR ''p'' \<or> d = CHR ''P'')"
    by (simp add: lower_char_eq)
next
  assume "\<exists>a b c d. m = [a, b, c, d] \<and> (a = CHR ''g'' \<or> a = CHR ''G'') \<and> (b = CHR ''z'' \<or> b = CHR ''Z'')
      \<and> (c = CHR ''i'' \<or> c = CHR ''I'') \<and> (d = CHR ''p'' \<or> d = CHR ''P'')"
  then obtain a b c d where "m = [a, b, c, d]"
    "lower_char a = CHR ''g''" "lower_char b = CHR ''z''" "lower_char c = CHR ''i''"
    "lower_char d = CHR ''p''"
    by (auto simp: lower_char_eq)
  then show "lower m = ''gzip''"
    by (simp add: lower_def)
qed

text \<open>The test on \<open>Accept-Encoding\<close> holds exactly when the header has the four letters of
  \<open>gzip\<close> in a row, each in either case.\<close>

lemma contains_lower_gzip:
  "contains ''gzip'' (lower s) \<longleftrightarrow> (\<exists>ps m ss. s = ps @ m @ ss \<and> lower m = ''gzip'')"
proof
  assume "contains ''gzip'' (lower s)"
  then obtain ps ss where "map lower_char s = ps @ ''gzip'' @ ss"
    by (auto simp: contains_iff lower_def)
  then obtain s1 r where "s = s1 @ r" "map lower_char r = ''gzip'' @ ss"
    by (auto simp: map_eq_append_conv)
  moreover from this have "take 4 (map lower_char r) = ''gzip''"
    by simp
  then have "lower (take 4 r) = ''gzip''"
    by (simp add: take_map lower_def)
  moreover have "r = take 4 r @ drop 4 r"
    by simp
  ultimately have "s = s1 @ take 4 r @ drop 4 r \<and> lower (take 4 r) = ''gzip''"
    by simp
  then show "\<exists>ps m ss. s = ps @ m @ ss \<and> lower m = ''gzip''"
    by blast
next
  assume "\<exists>ps m ss. s = ps @ m @ ss \<and> lower m = ''gzip''"
  then obtain ps m ss where "s = ps @ m @ ss" "lower m = ''gzip''"
    by blast
  then have "lower s = lower ps @ ''gzip'' @ lower ss"
    by (simp add: lower_def)
  then show "contains ''gzip'' (lower s)"
    unfolding contains_iff by blast
qed

lemma add_cors_simps [simp]:
  "status_code (add_cors resp) = status_code resp"
  "direct_passthrough (add_cors resp) = direct_passthrough resp"
  "data (add_cors resp) = data resp"
  "headers (add_cors resp) = headers resp @ cors_headers"
  by (simp_all add: add_cors_def add_header_def headers_add_def cors_headers_def)

lemma lower_neq_CE [simp]:
  "lower ''Access-Control-Allow-Origin'' \<noteq> lower ''Content-Encoding''"
  "lower ''Access-Control-Allow-Headers'' \<noteq> lower ''Content-Encoding''"
  "lower ''Access-Control-Allow-Methods'' \<noteq> lower ''Content-Encoding''"
  "lower ''Content-Length'' \<noteq> lower ''Content-Encoding''"
  "lower ''Content-Encoding'' \<noteq> lower ''Content-Length''"
  by (simp_all add: lower_def)

lemma filter_CE_cors [simp]:
  "filter (same_name ''Content-Encoding'') cors_headers = []"
  "filter (same_name ''Content-Length'') cors_headers = []"
  by (simp_all add: cors_headers_def same_name_def lower_def)

lemma skip_compress_add_cors:
  "skip_compress req (add_cors resp) \<longleftrightarrow> \<not> may_compress req resp"
  by (auto simp: skip_compress_def may_compress_def accepts_gzip_def get_data_def
      headers_contains_def Let_def)

lemma after_request_skip:
  "\<not> may_compress req resp \<Longrightarrow> after_request gz req resp = add_cors resp"
  by (simp add: after_request_def skip_compress_add_cors Let_def)

lemma after_request_compress:
  assumes "may_compress req resp"
  shows "data (after_request gz req resp) = gz (data resp) 4"
    and "status_code (after_request gz req resp) = status_code resp"
    and "direct_passthrough (after_request gz req resp) = direct_passthrough resp"
    and "headers (after_request gz req resp) =
           headers_set ''Content-Length'' (str_nat (length (gz (data resp) 4)))
             (headers_set ''Content-Encoding'' ''gzip''
               (headers_set ''Content-Length'' (str_nat (length (gz (data resp) 4)))
                 (headers resp @ cors_headers)))"
  using assms
  by (simp_all add: after_request_def skip_compress_add_cors Let_def set_data_def
      set_header_def get_data_def)

lemma after_request_compress_headers:
  assumes "may_compress req resp"
  shows "filter (same_name ''Content-Encoding'') (headers (after_request gz req resp))
           = [(''Content-Encoding'', ''gzip'')]"
    and "filter (same_name ''Content-Length'') (headers (after_request gz req resp))
           = [(''Content-Length'', str_nat (length (gz (data resp) 4)))]"
  using assms
  by (simp_all add: after_request_compress filter_headers_set_other filter_headers_set_same)

lemma example_request_accepts_gzip: "accepts_gzip example_request"
  by code_simp

lemma example_response_no_encoding:
  "\<not> headers_contains ''Content-Encoding'' [(''Content-Type'', ''application/json'')]"
  by (simp add: headers_contains_def same_name_def lower_def)

lemma example_response_simps [simp]:
  "status_code (example_response st pt n) = st"
  "direct_passthrough (example_response st pt n) = pt"
  "data (example_response st pt n) = replicate n 0"
  "headers (example_response st pt n) = [(''Content-Type'', ''application/json'')]"
  by (simp_all add: example_response_def)

lemma example_gzip_500: "example_gzip (replicate 500 0) 4 = [31, 139, 8] @ replicate 20 0"
  by (simp add: example_gzip_def)

lemma str_nat_23: "str_nat 23 = ''23''"
  by code_simp

lemma may_compress_add_cors:
  "may_compress req (add_cors resp) \<longleftrightarrow> may_compress req resp"
  by (simp add: may_compress_def headers_contains_def)

lemma may_compress_after_request:
  "\<not> may_compress req (after_request gz req resp)"
proof (cases "may_compress req resp")
  case True
  then have "headers_contains ''Content-Encoding'' (headers (after_request gz req resp))"
    by (simp add: headers_contains_def after_request_compress_headers)
  then show ?thesis by (simp add: may_compress_def)
next
  case False
  then show ?thesis by (simp add: after_request_skip may_compress_add_cors)
qed

section \<open>The after-request filter: compression\<close>

text \<open>
  Claim C1. The filter compresses the body exactly when the status is in [200, 300), the
  response is not a direct passthrough, the body has at least 500 bytes, the request's
  \<open>Accept-Encoding\<close> contains \<open>gzip\<close> whatever the case, and no \<open>Content-Encoding\<close> header is
  set. When these hold, the body becomes the compressed one, and the response has exactly
  one \<open>Content-Encoding\<close> header, \<open>gzip\<close>, and exactly one \<open>Content-Length\<close> header, the
  length of the compressed body. When they do not, the body stays and the headers only gain
  the three CORS headers. So the filter adds a \<open>Content-Encoding\<close> header exactly when the
  conditions hold.
\<close>

theorem after_request_compresses_iff:
  "(may_compress req resp \<longrightarrow>
      data (after_request gz req resp) = gz (data resp) 4
      \<and> filter (same_name ''Content-Encoding'') (headers (after_request gz req resp))
          = [(''Content-Encoding'', ''gzip'')]
      \<and> filter (same_name ''Content-Length'') (headers (after_request gz req resp))
          = [(''Content-Length'', str_nat (length (data (after_request gz req resp))))])
   \<and> (\<not> may_compress req resp \<longrightarrow>
      data (after_request gz req resp) = data resp
      \<and> headers (after_request gz req resp) = headers resp @ cors_headers)
   \<and> (may_compress req resp \<longleftrightarrow>
        \<not> headers_contains ''Content-Encoding'' (headers resp)
        \<and> headers_contains ''Content-Encoding'' (headers (after_request gz req resp)))"
proof (cases "may_compress req resp")
  case True
  then have "\<not> headers_contains ''Content-Encoding'' (headers resp)"
    by (simp add: may_compress_def)
  moreover have "headers_contains ''Content-Encoding'' (headers (after_request gz req resp))"
    using True by (simp add: headers_contains_def after_request_compress_headers)
  ultimately show ?thesis
    using True by (simp add: after_request_compress_headers after_request_compress(1))
next
  case False
  then show ?thesis
    by (simp add: after_request_skip headers_contains_def)
qed

theorem after_request_compresses_iff_witness:
  "may_compress example_request (example_response 200 False 500)
   \<and> data (after_request example_gzip example_request (example_response 200 False 500))
       = [31, 139, 8] @ replicate 20 0
   \<and> headers_get (headers (after_request example_gzip example_request
        (example_response 200 False 500))) ''content-length'' '''' = ''23''
   \<and> \<not> may_compress example_request (example_response 200 False 499)
   \<and> data (after_request example_gzip example_request (example_response 200 False 499))
       = replicate 499 0"
proof -
  have a: "may_compress example_request (example_response 200 False 500)"
    by (simp add: may_compress_def example_request_accepts_gzip example_response_no_encoding)
  have b: "\<not> may_compress example_request (example_response 200 False 499)"
    by (simp add: may_compress_def)
  have "lower ''content-length'' = lower ''Content-Length''"
    by code_simp
  then have c: "same_name ''content-length'' = same_name ''Content-Length''"
    by (simp add: same_name_def fun_eq_iff)
  show ?thesis
    using a b
      after_request_compresses_iff [of example_request "example_response 200 False 500" example_gzip]
      after_request_compresses_iff [of example_request "example_response 200 False 499" example_gzip]
    by (simp add: headers_get_def c example_gzip_500 str_nat_23)
qed

section \<open>The after-request filter: what stays\<close>

text \<open>A response of status 404 with no body: its headers are not left as they were.\<close>

theorem after_request_unchanged_counterexample:
  "headers (after_request example_gzip example_request (example_response 404 False 0))
     \<noteq> headers (example_response 404 False 0)"
  by (simp add: after_request_skip may_compress_def example_response_def cors_headers_def)

text \<open>
  Claim C8, amended. For a response whose status is outside [200, 300), or that is a direct
  passthrough, or whose body is shorter than 500 bytes, the filter leaves the body, the
  status and the passthrough flag as they are, and the headers are the ones of the response
  followed by the three CORS headers: nothing else is added, removed or changed.
\<close>

theorem after_request_frame:
  "status_code resp < 200 \<or> 300 \<le> status_code resp \<or> direct_passthrough resp
     \<or> length (data resp) < 500 \<Longrightarrow>
   data (after_request gz req resp) = data resp
   \<and> status_code (after_request gz req resp) = status_code resp
   \<and> direct_passthrough (after_request gz req resp) = direct_passthrough resp
   \<and> headers (after_request gz req resp) =
       headers resp @
         [(''Access-Control-Allow-Origin'', ''*''),
          (''Access-Control-Allow-Headers'', ''Content-Type''),
          (''Access-Control-Allow-Methods'', ''GET, POST'')]"
proof -
  assume "status_code resp < 200 \<or> 300 \<le> status_code resp \<or> direct_passthrough resp
     \<or> length (data resp) < 500"
  then have "\<not> may_compress req resp"
    by (auto simp: may_compress_def)
  then show ?thesis
    by (simp add: after_request_skip cors_headers_def)
qed

theorem after_request_frame_witness:
  "(404 < (200::int) \<or> (300::int) \<le> 404 \<or> False \<or> length (replicate 700 (0::8 word)) < 500)
   \<and> data (after_request example_gzip example_request (example_response 404 False 700))
       = replicate 700 0
   \<and> headers (after_request example_gzip example_request (example_response 404 False 700)) =
       [(''Content-Type'', ''application/json''),
        (''Access-Control-Allow-Origin'', ''*''),
        (''Access-Control-Allow-Headers'', ''Content-Type''),
        (''Access-Control-Allow-Methods'', ''GET, POST'')]"
  using after_request_frame [of "example_response 404 False 700" example_gzip example_request]
  by (simp add: example_response_def)

section \<open>The after-request filter: idempotence and the threshold\<close>

text \<open>A successful passthrough response of 500 bytes, to a request that accepts gzip, is
  not compressed.\<close>

theorem after_request_always_compress_counterexample:
  "length (data (example_response 200 True 500)) = 500
   \<and> status_code (example_response 200 True 500) = 200
   \<and> accepts_gzip example_request
   \<and> data (after_request example_gzip example_request (example_response 200 True 500))
       = data (example_response 200 True 500)
   \<and> data (after_request example_gzip example_request (example_response 200 True 500))
       \<noteq> example_gzip (data (example_response 200 True 500)) 4
   \<and> \<not> headers_contains ''Content-Encoding''
        (headers (after_request example_gzip example_request (example_response 200 True 500)))"
proof -
  have "\<not> may_compress example_request (example_response 200 True 500)"
    by (simp add: may_compress_def example_response_def)
  then have "after_request example_gzip example_request (example_response 200 True 500)
      = add_cors (example_response 200 True 500)"
    by (rule after_request_skip)
  moreover have "replicate 500 (0::8 word) \<noteq> example_gzip (replicate 500 0) 4"
  proof
    assume "replicate 500 (0::8 word) = example_gzip (replicate 500 0) 4"
    then have "length (replicate 500 (0::8 word)) = length (example_gzip (replicate 500 0) 4)"
      by simp
    then show False by (simp add: example_gzip_def)
  qed
  ultimately show ?thesis
    by (simp add: example_request_accepts_gzip example_response_def
        headers_contains_def same_name_def lower_def cors_headers_def)
qed

text \<open>
  Claim C9, amended. A response that already carries a \<open>Content-Encoding\<close> header keeps its
  body and its \<open>Content-Encoding\<close> headers; applying the filter a second time changes
  neither the body nor the \<open>Content-Encoding\<close> headers of the first result, and a response
  that came without the header leaves with at most one. A body of 499 bytes is never
  compressed. A body of 500 bytes with a success status and a request that accepts gzip is
  compressed, with \<open>Content-Length\<close> the length of the compressed body, provided that the
  response is not a direct passthrough and carries no \<open>Content-Encoding\<close> header.
\<close>

theorem after_request_idempotent:
  "(headers_contains ''Content-Encoding'' (headers resp) \<longrightarrow>
      data (after_request gz req resp) = data resp
      \<and> filter (same_name ''Content-Encoding'') (headers (after_request gz req resp))
          = filter (same_name ''Content-Encoding'') (headers resp))
   \<and> data (after_request gz req (after_request gz req resp)) = data (after_request gz req resp)
   \<and> filter (same_name ''Content-Encoding'')
        (headers (after_request gz req (after_request gz req resp)))
       = filter (same_name ''Content-Encoding'') (headers (after_request gz req resp))
   \<and> (\<not> headers_contains ''Content-Encoding'' (headers resp) \<longrightarrow>
        length (filter (same_name ''Content-Encoding'') (headers (after_request gz req resp))) \<le> 1)
   \<and> (length (data resp) = 499 \<longrightarrow>
        data (after_request gz req resp) = data resp
        \<and> filter (same_name ''Content-Encoding'') (headers (after_request gz req resp))
            = filter (same_name ''Content-Encoding'') (headers resp))
   \<and> (length (data resp) = 500 \<and> 200 \<le> status_code resp \<and> status_code resp < 300
        \<and> contains ''gzip'' (lower (headers_get (req_headers req) ''Accept-Encoding'' ''''))
        \<and> \<not> direct_passthrough resp
        \<and> \<not> headers_contains ''Content-Encoding'' (headers resp) \<longrightarrow>
        data (after_request gz req resp) = gz (data resp) 4
        \<and> filter (same_name ''Content-Encoding'') (headers (after_request gz req resp))
            = [(''Content-Encoding'', ''gzip'')]
        \<and> filter (same_name ''Content-Length'') (headers (after_request gz req resp))
            = [(''Content-Length'', str_nat (length (gz (data resp) 4)))])"
proof -
  let ?CE = "filter (same_name ''Content-Encoding'')"
  have skip: "\<not> may_compress req r \<Longrightarrow>
      data (after_request gz req r) = data r
      \<and> ?CE (headers (after_request gz req r)) = ?CE (headers r)" for r
    by (simp add: after_request_skip)
  have p1: "headers_contains ''Content-Encoding'' (headers resp) \<longrightarrow>
      data (after_request gz req resp) = data resp
      \<and> ?CE (headers (after_request gz req resp)) = ?CE (headers resp)"
    using skip [of resp] by (auto simp: may_compress_def)
  have p2: "data (after_request gz req (after_request gz req resp)) = data (after_request gz req resp)
      \<and> ?CE (headers (after_request gz req (after_request gz req resp)))
         = ?CE (headers (after_request gz req resp))"
    using skip [OF may_compress_after_request] .
  have p3: "\<not> headers_contains ''Content-Encoding'' (headers resp) \<longrightarrow>
        length (?CE (headers (after_request gz req resp))) \<le> 1"
    by (cases "may_compress req resp")
      (simp_all add: after_request_compress_headers after_request_skip headers_contains_def)
  have p4: "length (data resp) = 499 \<longrightarrow>
        data (after_request gz req resp) = data resp
        \<and> ?CE (headers (after_request gz req resp)) = ?CE (headers resp)"
    using skip [of resp] by (auto simp: may_compress_def)
  have p5: "length (data resp) = 500 \<and> 200 \<le> status_code resp \<and> status_code resp < 300
        \<and> contains ''gzip'' (lower (headers_get (req_headers req) ''Accept-Encoding'' ''''))
        \<and> \<not> direct_passthrough resp
        \<and> \<not> headers_contains ''Content-Encoding'' (headers resp) \<longrightarrow>
        data (after_request gz req resp) = gz (data resp) 4
        \<and> ?CE (headers (after_request gz req resp)) = [(''Content-Encoding'', ''gzip'')]
        \<and> filter (same_name ''Content-Length'') (headers (after_request gz req resp))
            = [(''Content-Length'', str_nat (length (gz (data resp) 4)))]"
  proof
    assume h: "length (data resp) = 500 \<and> 200 \<le> status_code resp \<and> status_code resp < 300
        \<and> contains ''gzip'' (lower (headers_get (req_headers req) ''Accept-Encoding'' ''''))
        \<and> \<not> direct_passthrough resp
        \<and> \<not> headers_contains ''Content-Encoding'' (headers resp)"
    then have "may_compress req resp"
      by (simp add: may_compress_def accepts_gzip_def)
    then show "data (after_request gz req resp) = gz (data resp) 4
        \<and> ?CE (headers (after_request gz req resp)) = [(''Content-Encoding'', ''gzip'')]
        \<and> filter (same_name ''Content-Length'') (headers (after_request gz req resp))
            = [(''Content-Length'', str_nat (length (gz (data resp) 4)))]"
      by (simp add: after_request_compress_headers after_request_compress(1))
  qed
  from p1 p2 p3 p4 p5 show ?thesis by blast
qed

theorem after_request_idempotent_witness:
  "length (data (example_response 200 False 499)) = 499
   \<and> data (after_request example_gzip example_request (example_response 200 False 499))
       = replicate 499 0
   \<and> length (data (example_response 200 False 500)) = 500
   \<and> contains ''gzip'' (lower (headers_get (req_headers example_request) ''Accept-Encoding'' ''''))
   \<and> \<not> headers_contains ''Content-Encoding'' (headers (example_response 200 False 500))
   \<and> data (after_request example_gzip example_request (example_response 200 False 500))
       = [31, 139, 8] @ replicate 20 0
   \<and> headers_contains ''Content-Encoding''
        (headers (after_request example_gzip example_request (example_response 200 False 500)))
   \<and> data (after_request example_gzip example_request
        (after_request example_gzip example_request (example_response 200 False 500)))
       = [31, 139, 8] @ replicate 20 0"
proof -
  let ?r = "example_response 200 False 500"
  let ?f = "after_request example_gzip example_request"
  have g: "contains ''gzip'' (lower (headers_get (req_headers example_request) ''Accept-Encoding'' ''''))"
    using example_request_accepts_gzip by (simp add: accepts_gzip_def)
  have n: "\<not> headers_contains ''Content-Encoding'' (headers ?r)"
    by (simp add: example_response_no_encoding)
  have a: "data (?f ?r) = [31, 139, 8] @ replicate 20 0
      \<and> filter (same_name ''Content-Encoding'') (headers (?f ?r)) = [(''Content-Encoding'', ''gzip'')]"
    using g n after_request_idempotent [of ?r example_gzip example_request]
    by (simp add: example_gzip_500)
  then have c: "headers_contains ''Content-Encoding'' (headers (?f ?r))"
    by (simp add: headers_contains_def)
  have b: "data (?f (?f ?r)) = data (?f ?r)"
    using c after_request_idempotent [of "?f ?r" example_gzip example_request] by blast
  have d: "data (?f (example_response 200 False 499)) = replicate 499 0"
    using after_request_idempotent [of "example_response 200 False 499" example_gzip example_request]
    by simp
  show ?thesis using a b c d g n by simp
qed

section \<open>The error handlers\<close>

lemma handle_exception_other:
  "\<not> is_HTTPException e \<Longrightarrow> handle_exception e log = (internal_error_response, log @ [e])"
  by (cases e)
    (simp_all add: internal_error_response_def InternalServerError_code_def
      InternalServerError_description_def)

lemma handle_user_exception_other:
  "\<not> is_HTTPException e \<Longrightarrow> \<not> is_InvalidBoundingBoxError e \<Longrightarrow>
   handle_user_exception e log = (internal_error_response, log @ [e])"
  by (cases e)
    (simp_all add: internal_error_response_def InternalServerError_code_def
      InternalServerError_description_def)

text \<open>The body that the generic handler returns for a \<open>ValueError\<close> is not the one with the
  description \<open>Internal Server Error\<close>.\<close>

theorem handle_exception_description_counterexample:
  "fst (handle_exception (ValueError ''boom'') []) \<noteq>
     ((JObj [(''code'', JInt 500), (''description'', JStr ''Internal Server Error'')], 500)
       :: unit error_response)"
  by (simp add: InternalServerError_description_def)

text \<open>
  Claim C3, amended. A structured HTTP failure with status \<open>c\<close> and description \<open>d\<close> gives
  the body \<open>{code: c, description: d}\<close> with status \<open>c\<close>, and nothing is logged. Any other
  failure given to the generic handler is logged and gives status 500 with the body
  \<open>{code: 500, description: InternalServerError.description}\<close>, the library's fixed text that
  starts with "The server encountered an internal error"; the response does not depend on
  the failure, so the cause is not exposed. Flask gives the generic handler every failure
  but the bounding-box one.
\<close>

theorem handle_exception_shape:
  "handle_exception (HTTPException c d) log
     = ((JObj [(''code'', JInt c), (''description'', JStr d)], c), log)
   \<and> handle_user_exception (HTTPException c d) log
     = ((JObj [(''code'', JInt c), (''description'', JStr d)], c), log)
   \<and> (\<not> is_HTTPException e \<longrightarrow>
        handle_exception e log = (internal_error_response, log @ [e]))
   \<and> (\<not> is_HTTPException e \<and> \<not> is_InvalidBoundingBoxError e \<longrightarrow>
        handle_user_exception e log = (internal_error_response, log @ [e]))"
  by (simp add: handle_exception_other handle_user_exception_other)

theorem handle_exception_shape_witness:
  "\<not> is_HTTPException (ValueError ''boom'') \<and> \<not> is_InvalidBoundingBoxError (ValueError ''boom'')
   \<and> handle_user_exception (ValueError ''boom'') [] =
       ((JObj [(''code'', JInt 500),
               (''description'',
                JStr (''The server encountered an internal error and was unable to''
                      @ '' complete your request. Either the server is overloaded or''
                      @ '' there is an error in the application.''))] :: unit json,
         500),
        [ValueError ''boom''])
   \<and> handle_user_exception (HTTPException 404 ''Collection not found.'') [] =
       ((JObj [(''code'', JInt 404), (''description'', JStr ''Collection not found.'')] :: unit json,
         404), [])"
  using handle_exception_shape [of 404 "''Collection not found.''" "[]" "ValueError ''boom''"]
  by (simp add: internal_error_response_def)

text \<open>
  Claim C4. For a bounding-box error with message \<open>m\<close> the response is the body
  \<open>{code: "400", description: m}\<close> with status 400, where the code is the string and not
  the integer; it is the special handler that answers, and its answer differs from the one
  the generic handler would give.
\<close>

theorem handle_exception_bbox_shape:
  "handle_user_exception (InvalidBoundingBoxError m) log
     = ((JObj [(''code'', JStr ''400''), (''description'', JStr m)], 400), log)
   \<and> handle_exception_bbox (InvalidBoundingBoxError m)
     = (JObj [(''code'', JStr ''400''), (''description'', JStr m)], 400)
   \<and> fst (handle_user_exception (InvalidBoundingBoxError m) log)
       = handle_exception_bbox (InvalidBoundingBoxError m)
   \<and> fst (handle_user_exception (InvalidBoundingBoxError m) log)
       \<noteq> fst (handle_exception (InvalidBoundingBoxError m) log)
   \<and> (JStr ''400'' :: 'f json) \<noteq> JInt 400"
  by (simp add: handle_exception_bbox_def InternalServerError_code_def)

section \<open>Page and limit that are not integers\<close>






lemma bind_exn_simps [simp]:
  "bind_exn (Inl e) f = Inl e"
  "bind_exn (Inr x) f = f x"
  by (simp_all add: bind_exn_def)






lemma py_int_bad_str:
  "int_of_str (int_max_str_digits py) s = None \<Longrightarrow>
   py_int py (JStr s) = Inl (ValueError (int_error_text py (JStr s)))"
  by simp




lemma int_of_str_too_long:
  "too_many_digits lim (strip s) \<Longrightarrow> int_of_str lim s = None"
  by (simp add: int_of_str_def)





section \<open>Dictionaries, query strings and links\<close>

lemma dict_get_dict_set:
  "dict_get (dict_set k v d) k' = (if k' = k then Some v else dict_get d k')"
  by (induction d) (auto simp: dict_get_def)

lemma dict_set_twice: "dict_set k v (dict_set k w d) = dict_set k v d"
  by (induction d) auto

lemma dict_set_not_Nil [simp]: "dict_set k v d \<noteq> []"
  by (cases d) auto

lemma args_set_twice: "args_set k v (args_set k w a) = args_set k v a"
  by (simp add: args_set_def dict_set_twice)

lemma args_set_not_Nil [simp]: "args_set k v a \<noteq> []"
  by (simp add: args_set_def)

lemma dict_set_member: "(k, v) \<in> set (dict_set k v d)"
  by (induction d) auto

lemma multi_items_member:
  "(k, vs) \<in> set a \<Longrightarrow> v \<in> set vs \<Longrightarrow> (k, v) \<in> set (multi_items a)"
  by (force simp: multi_items_def)

lemma multi_items_args_set: "(k, v) \<in> set (multi_items (args_set k v a))"
  by (rule multi_items_member [of k "[v]"]) (simp_all add: args_set_def dict_set_member)

lemma dict_set_keys:
  "distinct (map fst d) \<Longrightarrow> filter (\<lambda>kv. fst kv = k) (dict_set k v d) = [(k, v)]"
proof (induction d)
  case Nil
  then show ?case by simp
next
  case (Cons kv d)
  show ?case
  proof (cases "fst kv = k")
    case True
    then have "k \<notin> fst ` set d" using Cons.prems by auto
    then have "filter (\<lambda>kv. fst kv = k) d = []"
      by (auto simp: filter_empty_conv)
    with True show ?thesis by simp
  next
    case False
    then show ?thesis using Cons by simp
  qed
qed

lemma multi_items_filter:
  "filter (\<lambda>kv. fst kv = k) (multi_items a)
     = multi_items (filter (\<lambda>kvs. fst kvs = k) a)"
  by (induction a) (auto simp: multi_items_def filter_empty_conv)

lemma multi_items_args_set_only:
  "distinct (map fst a) \<Longrightarrow>
   filter (\<lambda>kv. fst kv = k) (multi_items (args_set k v a)) = [(k, v)]"
  by (simp add: multi_items_filter args_set_def dict_set_keys) (simp add: multi_items_def)

lemma safe_digit: "n < 10 \<Longrightarrow> quote_byte (48 + n) = [char_of (48 + n)]"
  by (simp add: quote_byte_def always_safe_def)

lemma utf8_digit: "n < 10 \<Longrightarrow> utf8 (digit_char n) = [48 + n]"
  by (simp add: utf8_def digit_char_def Let_def)

lemma quote_digit: "n < 10 \<Longrightarrow> url_quote_plus [digit_char n] = [digit_char n]"
  by (simp add: url_quote_plus_def utf8_digit safe_digit) (simp add: digit_char_def)

lemma url_quote_plus_append: "url_quote_plus (s @ t) = url_quote_plus s @ url_quote_plus t"
  by (simp add: url_quote_plus_def)

lemma quote_str_nat: "url_quote_plus (str_nat n) = str_nat n"
proof (induction n rule: str_nat.induct)
  case (1 n)
  show ?case
  proof (cases "n < 10")
    case True
    then show ?thesis by (simp add: str_nat.simps [of n] quote_digit)
  next
    case False
    then have "url_quote_plus (str_nat (n div 10)) = str_nat (n div 10)"
      using 1 by simp
    moreover have "url_quote_plus [digit_char (n mod 10)] = [digit_char (n mod 10)]"
      by (simp add: quote_digit)
    ultimately show ?thesis
      using False by (simp add: str_nat.simps [of n] url_quote_plus_append)
  qed
qed

lemma quote_minus: "url_quote_plus ''-'' = ''-''"
  by code_simp

lemma quote_page: "url_quote_plus ''page'' = ''page''"
  by code_simp

lemma quote_str_int: "url_quote_plus (str_int i) = str_int i"
proof (cases "i < 0")
  case True
  then have "str_int i = ''-'' @ str_nat (nat (- i))"
    by (simp add: str_int_def)
  then show ?thesis
    by (simp only: url_quote_plus_append quote_minus quote_str_nat)
next
  case False
  then show ?thesis by (simp add: str_int_def quote_str_nat)
qed

lemma encode_pair_page: "encode_pair (''page'', str_int i) = ''page='' @ str_int i"
  by (simp add: encode_pair_def quote_page quote_str_int)

lemma str_nat_not_Nil [simp]: "str_nat n \<noteq> []"
  by (subst str_nat.simps) simp

lemma join_not_Nil: "x \<in> set xs \<Longrightarrow> x \<noteq> [] \<Longrightarrow> join sep xs \<noteq> []"
  by (induction sep xs rule: join.induct) auto

lemma url_encode_page:
  "url_encode (args_set ''page'' (str_int i) a)
     = join ''&'' (map encode_pair (multi_items (args_set ''page'' (str_int i) a)))
   \<and> ''page='' @ str_int i \<in> set (map encode_pair (multi_items (args_set ''page'' (str_int i) a)))
   \<and> url_encode (args_set ''page'' (str_int i) a) \<noteq> []"
proof -
  let ?comps = "map encode_pair (multi_items (args_set ''page'' (str_int i) a))"
  have m: "''page='' @ str_int i \<in> set ?comps"
    using multi_items_args_set [of "''page''" "str_int i" a]
    by (metis encode_pair_page image_eqI set_map)
  then have "join ''&'' ?comps \<noteq> []"
    by (rule join_not_Nil) simp
  with m show ?thesis by (simp add: url_encode_def url_encode_items_def)
qed

lemma bind_exn_Inr: "bind_exn m f = Inr y \<longleftrightarrow> (\<exists>x. m = Inr x \<and> f x = Inr y)"
  by (cases m) auto

lemma search_page_link_GET:
  "search_page_link e GET r num (a, ls, h)
     = (args_set ''page'' (str_int num) a, ls @ [get_link e a r num], h)"
  by (simp add: search_page_link_def get_link_def Let_def)

lemma search_page_link_HEAD:
  "search_page_link e HEAD r num (a, ls, h) = (a, ls @ [plain_link e a r], h)"
  by (simp add: search_page_link_def plain_link_def Let_def)

lemma search_page_link_POST:
  "search_page_link e POST r num (a, ls, h)
     = (a, ls @ [body_link e a r (length h)],
        (h @ [h ! request_json])[length h := dict_set ''page'' (JInt num) ((h @ [h ! request_json]) ! length h)])"
  by (simp add: search_page_link_def body_link_def post_link_def deepcopy_def setitem_def Let_def)

lemma search_page_link_rel:
  "map rel (fst (snd (search_page_link e m r num st))) = map rel (fst (snd st)) @ [r]"
  by (cases st; cases m)
    (simp_all add: search_page_link_GET search_page_link_HEAD search_page_link_POST
      get_link_def plain_link_def body_link_def)

lemma search_links_rel:
  "map rel (fst (search_links e req pg h0))
     = (if has_next pg then [''next''] else []) @ (if has_prev pg then [''prev''] else [])"
  by (simp add: search_links_def Let_def search_page_link_rel)

lemma search_links_GET:
  "req_method req = GET \<Longrightarrow>
   search_links e req pg h0
     = ((if has_next pg then [get_link e (req_args req) ''next'' (next_num pg)] else [])
        @ (if has_prev pg then [get_link e (req_args req) ''prev'' (prev_num pg)] else []),
        h0)"
  by (simp add: search_links_def Let_def search_page_link_GET get_link_def args_set_twice)

lemma search_links_POST:
  "req_method req = POST \<Longrightarrow>
   search_links e req pg [d]
     = ((if has_next pg then [body_link e (req_args req) ''next'' 1] else [])
        @ (if has_prev pg
           then [body_link e (req_args req) ''prev'' (if has_next pg then 2 else 1)] else []),
        [d] @ (if has_next pg then [dict_set ''page'' (JInt (next_num pg)) d] else [])
            @ (if has_prev pg then [dict_set ''page'' (JInt (prev_num pg)) d] else []))"
  by (simp add: search_links_def Let_def search_page_link_POST request_json_def numeral_2_eq_2)

lemma stac_search_Inr:
  "stac_search e req roles access_token = Inr (g, h) \<longleftrightarrow>
   (\<exists>p h0 pg. search_request_params (builtins e) req = Inr (p, h0)
      \<and> get_collection_items e (search_kwargs roles p) = Inr pg
      \<and> g = \<lparr>stac_version = None, stac_extensions = None, fc_type = ''FeatureCollection'',
               links = fst (search_links e req pg h0),
               fc_context = [(''matched'', total pg), (''returned'', int (length (items pg)))],
               features = make_geojson e (items pg) (search_context_links e)
                            (get_assets_kwargs e (req_args req) access_token)\<rparr>
      \<and> h = snd (search_links e req pg h0))"
  by (auto simp: stac_search_def bind_exn_Inr Let_def)

lemma search_request_params_POST:
  "req_method req = POST \<Longrightarrow> search_request_params py req = Inr (p, h0) \<Longrightarrow>
   \<exists>d. req_is_json req \<and> req_body req = Parsed (JObj d) \<and> h0 = [d] \<and> post_params py d = Inr p"
  by (auto simp: search_request_params_def bind_exn_Inr get_json_def as_dict_def abort_def
      split: if_splits body.splits json.splits)

lemma search_request_params_GET:
  "req_method req = GET \<Longrightarrow> search_request_params py req = Inr (p, h0) \<Longrightarrow>
   h0 = [] \<and> get_params py (req_args req) = Inr p"
  by (auto simp: search_request_params_def bind_exn_Inr)

lemma collection_items_Inr:
  "collection_items e req collection_id roles access_token = Inr g \<longleftrightarrow>
   (\<exists>kw pg. items_kwargs collection_id roles (req_args req) = Inr kw
      \<and> get_collection_items e kw = Inr pg
      \<and> g = \<lparr>stac_version = Some ''0.9.0'',
               stac_extensions = Some [''checksum'', ''commons'', ''context'', ''eo''],
               fc_type = ''FeatureCollection'',
               links = items_links e collection_id (req_args req) pg,
               fc_context = [(''matched'', total pg), (''returned'', int (length (items pg))),
                            (''limit'', per_page pg)],
               features = make_geojson e (items pg) (items_context_links e)
                            (get_assets_kwargs e (req_args req) access_token)\<rparr>)"
  by (auto simp: collection_items_def bind_exn_Inr Let_def)

lemma items_links_eq:
  "items_links e cid a pg
     = (if has_next pg then [items_link e cid a ''next'' (next_num pg)] else [])
       @ (if has_prev pg then [items_link e cid a ''prev'' (prev_num pg)] else [])"
  by (simp add: items_links_def items_page_link_def items_link_def Let_def args_set_twice)

lemma search_query_Inr:
  "search_request_params py req = Inr (p, h0) \<Longrightarrow>
   search_query py roles req = Inr (search_kwargs roles p)"
  by (simp add: search_query_def)

lemma rel_count_map: "rel_count r ls = length (filter (\<lambda>x. x = r) (map rel ls))"
  by (simp add: rel_count_def filter_map comp_def)

lemma rel_count_links:
  "map rel ls = (if hn then [''next''] else []) @ (if hp then [''prev''] else []) \<Longrightarrow>
   rel_count ''next'' ls = (if hn then 1 else 0) \<and> rel_count ''prev'' ls = (if hp then 1 else 0)"
  by (simp add: rel_count_map)

lemma page_query_url_encode:
  "page_query n (url_encode (args_set ''page'' (str_int n) a))
   \<and> url_encode (args_set ''page'' (str_int n) a) \<noteq> []"
  using url_encode_page [of n a] by (auto simp: page_query_def)

lemma get_link_href:
  "href (get_link e a r n)
     = BASE_URL e @ ''/search'' @ ''?'' @ url_encode (args_set ''page'' (str_int n) a)"
  by (simp add: get_link_def search_href_def)

lemma items_link_href:
  "href (items_link e cid a r n)
     = BASE_URL e @ ''/collections/'' @ cid @ ''/items'' @ ''?''
         @ url_encode (args_set ''page'' (str_int n) a)"
  by (simp add: items_link_def items_href_def)

lemma link_num_simps [simp]:
  "link_num pg (get_link e a ''next'' n) = next_num pg"
  "link_num pg (get_link e a ''prev'' n) = prev_num pg"
  "link_num pg (items_link e cid a ''next'' n) = next_num pg"
  "link_num pg (items_link e cid a ''prev'' n) = prev_num pg"
  "link_num pg (body_link e a ''next'' k) = next_num pg"
  "link_num pg (body_link e a ''prev'' k) = prev_num pg"
  by (simp_all add: link_num_def get_link_def items_link_def body_link_def)

lemma example_search:
  "stac_search (example_env True False) (example_get [(''limit'', [''2''])]) [] ''''
     = Inr (example_search_response, [])"
  by code_simp

lemma example_items:
  "collection_items (example_env True True) (example_get [(''bbox'', [''-60,-10,-50,0''])])
      ''S2-16D'' [] ''''
     = Inr example_items_response"
  by code_simp

lemma example_post_search:
  "stac_search (example_env True True) (example_post [] example_body) [] ''''
     = Inr (example_post_response, example_post_heap)"
  by code_simp

lemma example_env_page:
  "get_collection_items (example_env hn hp) kw = Inr pg \<Longrightarrow> pg = example_page hn hp"
  by (simp add: example_env_def)

section \<open>One query from the two forms\<close>

text \<open>The search reaches the store with its canonical query and in no other way.\<close>

lemma stac_search_query_error:
  "search_query (builtins e) roles req = Inl x \<Longrightarrow> stac_search e req roles access_token = Inl x"
  by (cases "search_request_params (builtins e) req")
    (simp_all add: search_query_def stac_search_def)

lemma stac_search_store_error:
  "search_query (builtins e) roles req = Inr kw \<Longrightarrow> get_collection_items e kw = Inl x \<Longrightarrow>
   stac_search e req roles access_token = Inl x"
  by (cases "search_request_params (builtins e) req")
    (auto simp: search_query_def stac_search_def)

lemma str_items_strings: "str_items (map JStr xs) = Inr xs"
  by (induction xs) simp_all

lemma join_values_strings: "join_values (map JStr xs) = Inr (join '','' xs)"
  by (simp add: join_values_def str_items_strings)

lemma join_ids_strings: "join_ids (JArr (map JStr xs)) = Inr (JStr (join '','' xs))"
  by (simp add: join_ids_def join_values_strings)

lemma join_str_list: "join_str py (JArr xs) = Inr (JStr (join '','' (map (py_str py) xs)))"
  by (simp add: join_str_def)

lemma join_null [simp]: "join_str py JNull = Inr JNull" "join_ids JNull = Inr JNull"
  by (simp_all add: join_str_def join_ids_def)

lemma opt_str_eq [simp]: "(opt_str a :: 'f json) = opt_str b \<longleftrightarrow> a = b"
  by (cases a; cases b) (simp_all add: opt_str_def)

lemma get_form_lookup:
  "arg_or_none (get_form bs dt ns cs) ''bbox'' = opt_str bs"
  "arg_or_none (get_form bs dt ns cs) ''datetime'' = opt_str dt"
  "arg_or_none (get_form bs dt ns cs) ''ids'' = opt_str ns"
  "arg_or_none (get_form bs dt ns cs) ''collections'' = opt_str cs"
  "arg_or (get_form bs dt ns cs) ''page'' v = v"
  "arg_or (get_form bs dt ns cs) ''limit'' v = v"
  by (cases bs; cases dt; cases ns; cases cs;
      simp add: get_form_def opt_entry_def arg_or_none_def arg_or_def args_get_def dict_get_def
        opt_str_def)+

lemma post_form_lookup:
  "join_str py (json_get (post_form b dt i c) ''bbox'' JNull) = Inr (opt_str (bbox_str py b))"
  "json_get (post_form b dt i c) ''datetime'' JNull = opt_str dt"
  "join_ids (json_get (post_form b dt i c) ''ids'' JNull) = Inr (opt_str (ids_str i))"
  "join_ids (json_get (post_form b dt i c) ''collections'' JNull) = Inr (opt_str (ids_str c))"
  "json_get (post_form b dt i c) ''page'' v = v"
  "json_get (post_form b dt i c) ''limit'' v = v"
  "json_get (post_form b dt i c) ''intersects'' v = v"
  "json_get (post_form b dt i c) ''query'' v = v"
  by (cases b; cases dt; cases i; cases c;
      simp add: post_form_def opt_entry_def json_get_def dict_get_def opt_str_def
        join_ids_strings join_str_list bbox_str_def ids_str_def)+

lemma search_query_get_form:
  "search_query py roles
     \<lparr>req_method = GET, req_args = get_form bs dt ns cs, req_is_json = j, req_body = bd\<rparr>
     = Inr (canonical_query roles bs dt ns cs)"
  by (simp add: search_query_def search_request_params_def get_params_def get_form_lookup
      search_kwargs_def canonical_query_def)

lemma search_query_post_form:
  "search_query py roles
     \<lparr>req_method = POST, req_args = a, req_is_json = True,
      req_body = Parsed (JObj (post_form b dt i c))\<rparr>
     = Inr (canonical_query roles (bbox_str py b) dt (ids_str i) (ids_str c))"
  by (simp add: search_query_def search_request_params_def post_params_def get_json_def
      as_dict_def post_form_lookup search_kwargs_def canonical_query_def)

text \<open>The same bounding box, written \<open>0.00,2,3,4\<close> in the query string of a GET request and
  \<open>[0.00, 2, 3, 4]\<close> in the body of a POST request, whose first number the parser reads as
  the float 0.0: the store gets \<open>0.00,2,3,4\<close> from the one and \<open>0.0,2,3,4\<close> from the
  other.\<close>

theorem search_query_bbox_counterexample:
  "search_query example_builtins [] (example_get [(''bbox'', [''0.00,2,3,4''])])
     = Inr (canonical_query [] (Some ''0.00,2,3,4'') None None None)
   \<and> search_query example_builtins []
       (example_post [] [(''bbox'', JArr [JFloat (), JInt 2, JInt 3, JInt 4])])
     = Inr (canonical_query [] (Some ''0.0,2,3,4'') None None None)
   \<and> search_query example_builtins [] (example_get [(''bbox'', [''0.00,2,3,4''])])
     \<noteq> search_query example_builtins []
         (example_post [] [(''bbox'', JArr [JFloat (), JInt 2, JInt 3, JInt 4])])"
proof -
  have a: "search_query example_builtins [] (example_get [(''bbox'', [''0.00,2,3,4''])])
     = Inr (canonical_query [] (Some ''0.00,2,3,4'') None None None)"
    by code_simp
  have b: "search_query example_builtins []
       (example_post [] [(''bbox'', JArr [JFloat (), JInt 2, JInt 3, JInt 4])])
     = Inr (canonical_query [] (Some ''0.0,2,3,4'') None None None)"
    by code_simp
  show ?thesis
    unfolding a b by (simp add: canonical_query_def opt_str_def)
qed

text \<open>
  Claim C5, amended. For every bounding box (a list of values, numbers among them),
  datetime, list of ids and list of collections, each present or absent: the GET request
  passes the strings of its query string to the store as they are, and the POST request
  passes the datetime as it is, the ids and the collections joined by commas, and the
  bounding box as the comma-join of \<open>str\<close> of its elements. So the two requests give the
  identical canonical query, the same keyword arguments of the store's item search, if and
  only if the GET strings of ids and collections are the comma-joined lists and the GET
  bounding box is written exactly as \<open>str\<close> prints each number of the list. Page is 1 and
  limit 10 in both.
\<close>

theorem search_query_get_post_iff:
  "search_query py roles
     \<lparr>req_method = GET, req_args = get_form bs dt ns cs, req_is_json = j, req_body = bd\<rparr>
     = Inr (canonical_query roles bs dt ns cs)
   \<and> search_query py roles
       \<lparr>req_method = POST, req_args = a, req_is_json = True,
        req_body = Parsed (JObj (post_form b dt i c))\<rparr>
     = Inr (canonical_query roles (bbox_str py b) dt (ids_str i) (ids_str c))
   \<and> (search_query py roles
         \<lparr>req_method = GET, req_args = get_form bs dt ns cs, req_is_json = j, req_body = bd\<rparr>
       = search_query py roles
           \<lparr>req_method = POST, req_args = a, req_is_json = True,
            req_body = Parsed (JObj (post_form b dt i c))\<rparr>
      \<longleftrightarrow> bs = bbox_str py b \<and> ns = ids_str i \<and> cs = ids_str c)"
  unfolding search_query_get_form search_query_post_form
  by (auto simp: canonical_query_def)

theorem search_query_get_post_iff_witness:
  "bbox_str example_builtins (Some [JInt (- 60), JInt (- 10), JInt (- 50), JInt 0])
     = Some ''-60,-10,-50,0''
   \<and> ids_str (Some [''a'', ''b'']) = Some ''a,b''
   \<and> search_query example_builtins []
       (example_get [(''bbox'', [''-60,-10,-50,0'']), (''ids'', [''a,b''])])
     = search_query example_builtins []
         (example_post []
           [(''bbox'', JArr [JInt (- 60), JInt (- 10), JInt (- 50), JInt 0]),
            (''ids'', JArr [JStr ''a'', JStr ''b''])])
   \<and> bbox_str example_builtins (Some [JFloat (), JInt 2, JInt 3, JInt 4]) = Some ''0.0,2,3,4''
   \<and> search_query example_builtins [] (example_get [(''bbox'', [''0.0,2,3,4''])])
     = search_query example_builtins []
         (example_post [] [(''bbox'', JArr [JFloat (), JInt 2, JInt 3, JInt 4])])"
proof -
  have a: "bbox_str example_builtins (Some [JInt (- 60), JInt (- 10), JInt (- 50), JInt 0])
     = Some ''-60,-10,-50,0''"
    by code_simp
  have b: "ids_str (Some [''a'', ''b'']) = Some ''a,b''"
    by (simp add: ids_str_def)
  have c: "bbox_str example_builtins (Some [JFloat (), JInt 2, JInt 3, JInt 4]) = Some ''0.0,2,3,4''"
    by code_simp
  have f: "get_form (Some ''-60,-10,-50,0'') None (Some ''a,b'') None
      = [(''bbox'', [''-60,-10,-50,0'']), (''ids'', [''a,b''])]"
    "get_form (Some ''0.0,2,3,4'') None None None = [(''bbox'', [''0.0,2,3,4''])]"
    "post_form (Some [JInt (- 60), JInt (- 10), JInt (- 50), JInt 0]) None (Some [''a'', ''b'']) None
      = [(''bbox'', JArr [JInt (- 60), JInt (- 10), JInt (- 50), JInt 0 :: unit json]),
         (''ids'', JArr [JStr ''a'', JStr ''b''])]"
    "post_form (Some [JFloat (), JInt 2, JInt 3, JInt 4]) None None None
      = [(''bbox'', JArr [JFloat (), JInt 2, JInt 3, JInt 4])]"
    by (simp_all add: get_form_def post_form_def opt_entry_def)
  have d: "search_query example_builtins []
       (example_get [(''bbox'', [''-60,-10,-50,0'']), (''ids'', [''a,b''])])
     = search_query example_builtins []
         (example_post []
           [(''bbox'', JArr [JInt (- 60), JInt (- 10), JInt (- 50), JInt 0]),
            (''ids'', JArr [JStr ''a'', JStr ''b''])])"
    using a b
      search_query_get_post_iff [where py = example_builtins and roles = "[]"
        and bs = "Some ''-60,-10,-50,0''" and dt = None and ns = "Some ''a,b''" and cs = None
        and b = "Some [JInt (- 60), JInt (- 10), JInt (- 50), JInt 0]"
        and i = "Some [''a'', ''b'']" and c = None and j = False and bd = "Parsed JNull"
        and a = "[]"]
    by (simp add: f example_get_def example_post_def ids_str_def)
  have e: "search_query example_builtins [] (example_get [(''bbox'', [''0.0,2,3,4''])])
     = search_query example_builtins []
         (example_post [] [(''bbox'', JArr [JFloat (), JInt 2, JInt 3, JInt 4])])"
    using c
      search_query_get_post_iff [where py = example_builtins and roles = "[]"
        and bs = "Some ''0.0,2,3,4''" and dt = None and ns = None and cs = None
        and b = "Some [JFloat (), JInt 2, JInt 3, JInt 4]"
        and i = None and c = None and j = False and bd = "Parsed JNull" and a = "[]"]
    by (simp add: f example_get_def example_post_def ids_str_def)
  show ?thesis using a b c d e by simp
qed

section \<open>Next and previous links\<close>

text \<open>
  Claim C6. When a listing succeeds, its links are those of the page that the store
  returned: a link \<open>next\<close> exactly when \<open>has_next\<close>, then a link \<open>prev\<close> exactly when
  \<open>has_prev\<close>, and no other; so each relation occurs once or not at all. This holds for the
  search endpoint, whatever the method, and for the items of a collection.
\<close>

theorem pagination_links_iff:
  "(stac_search e req roles access_token = Inr (g, h) \<longrightarrow>
      (\<exists>kw pg. search_query (builtins e) roles req = Inr kw
         \<and> get_collection_items e kw = Inr pg
         \<and> map rel (links g)
             = (if has_next pg then [''next''] else []) @ (if has_prev pg then [''prev''] else [])
         \<and> rel_count ''next'' (links g) = (if has_next pg then 1 else 0)
         \<and> rel_count ''prev'' (links g) = (if has_prev pg then 1 else 0)))
   \<and> (collection_items e req collection_id roles access_token = Inr g' \<longrightarrow>
      (\<exists>kw pg. items_kwargs collection_id roles (req_args req) = Inr kw
         \<and> get_collection_items e kw = Inr pg
         \<and> map rel (links g')
             = (if has_next pg then [''next''] else []) @ (if has_prev pg then [''prev''] else [])
         \<and> rel_count ''next'' (links g') = (if has_next pg then 1 else 0)
         \<and> rel_count ''prev'' (links g') = (if has_prev pg then 1 else 0)))"
proof (intro conjI impI)
  assume "stac_search e req roles access_token = Inr (g, h)"
  then obtain p h0 pg where
    p: "search_request_params (builtins e) req = Inr (p, h0)"
    and pg: "get_collection_items e (search_kwargs roles p) = Inr pg"
    and l: "links g = fst (search_links e req pg h0)"
    by (auto simp: stac_search_Inr)
  have r: "map rel (links g)
      = (if has_next pg then [''next''] else []) @ (if has_prev pg then [''prev''] else [])"
    by (simp only: l search_links_rel)
  show "\<exists>kw pg. search_query (builtins e) roles req = Inr kw
         \<and> get_collection_items e kw = Inr pg
         \<and> map rel (links g)
             = (if has_next pg then [''next''] else []) @ (if has_prev pg then [''prev''] else [])
         \<and> rel_count ''next'' (links g) = (if has_next pg then 1 else 0)
         \<and> rel_count ''prev'' (links g) = (if has_prev pg then 1 else 0)"
    using search_query_Inr [OF p] pg r rel_count_links [OF r] by blast
next
  assume "collection_items e req collection_id roles access_token = Inr g'"
  then obtain kw pg where
    kw: "items_kwargs collection_id roles (req_args req) = Inr kw"
    and pg: "get_collection_items e kw = Inr pg"
    and l: "links g' = items_links e collection_id (req_args req) pg"
    by (auto simp: collection_items_Inr)
  have r: "map rel (links g')
      = (if has_next pg then [''next''] else []) @ (if has_prev pg then [''prev''] else [])"
    by (simp add: l items_links_eq items_link_def)
  show "\<exists>kw pg. items_kwargs collection_id roles (req_args req) = Inr kw
         \<and> get_collection_items e kw = Inr pg
         \<and> map rel (links g')
             = (if has_next pg then [''next''] else []) @ (if has_prev pg then [''prev''] else [])
         \<and> rel_count ''next'' (links g') = (if has_next pg then 1 else 0)
         \<and> rel_count ''prev'' (links g') = (if has_prev pg then 1 else 0)"
    using kw pg r rel_count_links [OF r] by blast
qed

theorem pagination_links_iff_witness:
  "stac_search (example_env True False) (example_get [(''limit'', [''2''])]) [] ''''
     = Inr (example_search_response, [])
   \<and> rel_count ''next'' (links example_search_response) = 1
   \<and> rel_count ''prev'' (links example_search_response) = 0
   \<and> collection_items (example_env True True) (example_get [(''bbox'', [''-60,-10,-50,0''])])
        ''S2-16D'' [] '''' = Inr example_items_response
   \<and> rel_count ''next'' (links example_items_response) = 1
   \<and> rel_count ''prev'' (links example_items_response) = 1"
proof -
  have "\<exists>kw pg. get_collection_items (example_env True False) kw = Inr pg
      \<and> rel_count ''next'' (links example_search_response) = (if has_next pg then 1 else 0)
      \<and> rel_count ''prev'' (links example_search_response) = (if has_prev pg then 1 else 0)"
    using example_search
      pagination_links_iff [where e = "example_env True False"
        and req = "example_get [(''limit'', [''2''])]" and roles = "[]" and access_token = "''''"
        and g = example_search_response and h = "[]"]
    by blast
  then have a: "rel_count ''next'' (links example_search_response) = 1
      \<and> rel_count ''prev'' (links example_search_response) = 0"
    by (auto dest!: example_env_page simp: example_page_def)
  have "\<exists>kw pg. get_collection_items (example_env True True) kw = Inr pg
      \<and> rel_count ''next'' (links example_items_response) = (if has_next pg then 1 else 0)
      \<and> rel_count ''prev'' (links example_items_response) = (if has_prev pg then 1 else 0)"
    using example_items
      pagination_links_iff [where e = "example_env True True"
        and req = "example_get [(''bbox'', [''-60,-10,-50,0''])]" and collection_id = "''S2-16D''"
        and roles = "[]" and access_token = "''''" and g' = example_items_response]
    by blast
  then have b: "rel_count ''next'' (links example_items_response) = 1
      \<and> rel_count ''prev'' (links example_items_response) = 1"
    by (auto dest!: example_env_page simp: example_page_def)
  show ?thesis using a b example_search example_items by simp
qed

text \<open>
  Claim C10. For a GET search, and for the items of a collection, the href of every
  pagination link is the endpoint path, a question mark and the encoded arguments of the
  request with \<open>page\<close> overwritten by the page number of the link (\<open>next_num\<close> or
  \<open>prev_num\<close>); this query string is not empty and \<open>page=n\<close> is one of its components. The
  branch without the question mark is never taken.
\<close>

theorem get_links_carry_page:
  "(req_method req = GET \<and> stac_search e req roles access_token = Inr (g, h) \<longrightarrow>
      (\<exists>kw pg. search_query (builtins e) roles req = Inr kw
         \<and> get_collection_items e kw = Inr pg
         \<and> (\<forall>l \<in> set (links g).
               href l = BASE_URL e @ ''/search'' @ ''?'' @ link_query req pg l
               \<and> link_query req pg l \<noteq> []
               \<and> page_query (link_num pg l) (link_query req pg l))))
   \<and> (collection_items e req collection_id roles access_token = Inr g' \<longrightarrow>
      (\<exists>kw pg. items_kwargs collection_id roles (req_args req) = Inr kw
         \<and> get_collection_items e kw = Inr pg
         \<and> (\<forall>l \<in> set (links g').
               href l = BASE_URL e @ ''/collections/'' @ collection_id @ ''/items'' @ ''?''
                          @ link_query req pg l
               \<and> link_query req pg l \<noteq> []
               \<and> page_query (link_num pg l) (link_query req pg l))))"
proof (intro conjI impI)
  assume a: "req_method req = GET \<and> stac_search e req roles access_token = Inr (g, h)"
  then obtain p h0 pg where
    p: "search_request_params (builtins e) req = Inr (p, h0)"
    and pg: "get_collection_items e (search_kwargs roles p) = Inr pg"
    and l: "links g = fst (search_links e req pg h0)"
    by (auto simp: stac_search_Inr)
  have "\<forall>l \<in> set (links g).
      href l = BASE_URL e @ ''/search'' @ ''?'' @ link_query req pg l
      \<and> link_query req pg l \<noteq> []
      \<and> page_query (link_num pg l) (link_query req pg l)"
    using a page_query_url_encode [of "next_num pg" "req_args req"]
      page_query_url_encode [of "prev_num pg" "req_args req"]
    by (auto simp: l search_links_GET link_query_def get_link_href)
  then show "\<exists>kw pg. search_query (builtins e) roles req = Inr kw
         \<and> get_collection_items e kw = Inr pg
         \<and> (\<forall>l \<in> set (links g).
               href l = BASE_URL e @ ''/search'' @ ''?'' @ link_query req pg l
               \<and> link_query req pg l \<noteq> []
               \<and> page_query (link_num pg l) (link_query req pg l))"
    using search_query_Inr [OF p] pg by blast
next
  assume "collection_items e req collection_id roles access_token = Inr g'"
  then obtain kw pg where
    kw: "items_kwargs collection_id roles (req_args req) = Inr kw"
    and pg: "get_collection_items e kw = Inr pg"
    and l: "links g' = items_links e collection_id (req_args req) pg"
    by (auto simp: collection_items_Inr)
  have "\<forall>l \<in> set (links g').
      href l = BASE_URL e @ ''/collections/'' @ collection_id @ ''/items'' @ ''?''
                 @ link_query req pg l
      \<and> link_query req pg l \<noteq> []
      \<and> page_query (link_num pg l) (link_query req pg l)"
    using page_query_url_encode [of "next_num pg" "req_args req"]
      page_query_url_encode [of "prev_num pg" "req_args req"]
    by (auto simp: l items_links_eq link_query_def items_link_href)
  then show "\<exists>kw pg. items_kwargs collection_id roles (req_args req) = Inr kw
         \<and> get_collection_items e kw = Inr pg
         \<and> (\<forall>l \<in> set (links g').
               href l = BASE_URL e @ ''/collections/'' @ collection_id @ ''/items'' @ ''?''
                          @ link_query req pg l
               \<and> link_query req pg l \<noteq> []
               \<and> page_query (link_num pg l) (link_query req pg l))"
    using kw pg by blast
qed

theorem get_links_carry_page_witness:
  "req_method (example_get [(''limit'', [''2''])]) = GET
   \<and> stac_search (example_env True False) (example_get [(''limit'', [''2''])]) [] ''''
     = Inr (example_search_response, [])
   \<and> map href (links example_search_response) = [''http://localhost/search?limit=2&page=3'']
   \<and> page_query 3 ''limit=2&page=3''
   \<and> collection_items (example_env True True) (example_get [(''bbox'', [''-60,-10,-50,0''])])
        ''S2-16D'' [] '''' = Inr example_items_response
   \<and> page_query 3 ''bbox=-60%2C-10%2C-50%2C0&page=3''
   \<and> page_query 1 ''bbox=-60%2C-10%2C-50%2C0&page=1''"
proof -
  let ?req = "example_get [(''limit'', [''2''])]"
  let ?req' = "example_get [(''bbox'', [''-60,-10,-50,0''])]"
  let ?l = "\<lparr>href = ''http://localhost/search?limit=2&page=3'', rel = ''next'', body = None,
      link_method = None, merge = None\<rparr>"
  have m: "req_method ?req = GET"
    by (simp add: example_get_def)
  have "\<exists>kw pg. get_collection_items (example_env True False) kw = Inr pg
      \<and> (\<forall>l \<in> set (links example_search_response).
            href l = BASE_URL (example_env True False) @ ''/search'' @ ''?'' @ link_query ?req pg l
            \<and> page_query (link_num pg l) (link_query ?req pg l))"
    using m example_search
      get_links_carry_page [where e = "example_env True False" and req = ?req and roles = "[]"
        and access_token = "''''" and g = example_search_response and h = "[]"]
    by blast
  then have "href ?l = ''http://localhost'' @ ''/search'' @ ''?''
        @ link_query ?req (example_page True False) ?l
      \<and> page_query (link_num (example_page True False) ?l)
          (link_query ?req (example_page True False) ?l)"
    by (auto dest!: example_env_page simp: example_search_response_def example_env_def)
  then have a: "page_query 3 ''limit=2&page=3''"
    by (auto simp: link_num_def example_page_def)
  have "\<exists>kw pg. get_collection_items (example_env True True) kw = Inr pg
      \<and> (\<forall>l \<in> set (links example_items_response).
            href l = BASE_URL (example_env True True) @ ''/collections/'' @ ''S2-16D'' @ ''/items''
                       @ ''?'' @ link_query ?req' pg l
            \<and> page_query (link_num pg l) (link_query ?req' pg l))"
    using example_items
      get_links_carry_page [where e = "example_env True True" and req = ?req'
        and collection_id = "''S2-16D''" and roles = "[]" and access_token = "''''"
        and g' = example_items_response]
    by blast
  then have "\<forall>l \<in> set (links example_items_response).
            href l = ''http://localhost'' @ ''/collections/'' @ ''S2-16D'' @ ''/items''
                       @ ''?'' @ link_query ?req' (example_page True True) l
            \<and> page_query (link_num (example_page True True) l)
                (link_query ?req' (example_page True True) l)"
    by (auto dest!: example_env_page simp: example_env_def)
  then have b: "page_query 3 ''bbox=-60%2C-10%2C-50%2C0&page=3''
      \<and> page_query 1 ''bbox=-60%2C-10%2C-50%2C0&page=1''"
    by (auto simp: example_items_response_def link_num_def example_page_def)
  show ?thesis
    using m a b example_search example_items by (simp add: example_search_response_def)
qed

section \<open>Links of a POST search\<close>

text \<open>A POST to \<open>/search?access_token=t\<close>: the href of the link has a query string.\<close>

theorem post_link_href_counterexample:
  "map href (links (fst (projr (stac_search (example_env True False)
      (example_post [(''access_token'', [''t''])] [(''page'', JInt 2)]) [] ''''))))
     = [''http://localhost/search?access_token=t'']
   \<and> BASE_URL (example_env True False) @ ''/search'' = ''http://localhost/search''
   \<and> req_method (example_post [(''access_token'', [''t''])] [(''page'', JInt 2)]) = POST"
  by code_simp

text \<open>
  Claim C7, amended. For a POST search with a JSON body, every pagination link has method
  \<open>POST\<close>, merge true, and as body a fresh object, different for each link and different
  from the request body, whose content is the request body with only \<open>page\<close> overwritten by
  the page number of the link; the request body itself is left as it was. The href is the
  search endpoint path followed by the query string of the request itself, re-encoded and
  with no page written into it; it is the bare path when the request has no query string.
\<close>

theorem post_links_carry_body:
  "req_method req = POST \<and> stac_search e req roles access_token = Inr (g, h) \<longrightarrow>
     (\<exists>d kw pg. req_body req = Parsed (JObj d)
        \<and> search_query (builtins e) roles req = Inr kw
        \<and> get_collection_items e kw = Inr pg
        \<and> h ! request_json = d
        \<and> distinct (map body (links g))
        \<and> (\<forall>l \<in> set (links g).
              href l = BASE_URL e @ ''/search''
                         @ (if req_args req = [] then '''' else ''?'' @ url_encode (req_args req))
              \<and> link_method l = Some ''POST''
              \<and> merge l = Some True
              \<and> body l \<noteq> None
              \<and> body l \<noteq> Some request_json
              \<and> link_body h l = Some (dict_set ''page'' (JInt (link_num pg l)) d)
              \<and> (\<forall>k. dict_get (dict_set ''page'' (JInt (link_num pg l)) d) k
                      = (if k = ''page'' then Some (JInt (link_num pg l)) else dict_get d k))))"
proof
  assume a: "req_method req = POST \<and> stac_search e req roles access_token = Inr (g, h)"
  then obtain p h0 pg where
    p: "search_request_params (builtins e) req = Inr (p, h0)"
    and pg: "get_collection_items e (search_kwargs roles p) = Inr pg"
    and l: "links g = fst (search_links e req pg h0)"
    and h: "h = snd (search_links e req pg h0)"
    by (auto simp: stac_search_Inr)
  from a p obtain d where d: "req_body req = Parsed (JObj d)" and h0: "h0 = [d]"
    using search_request_params_POST by blast
  have m: "req_method req = POST" using a by simp
  have hd: "h ! request_json = d"
    by (simp add: h h0 search_links_POST [OF m] request_json_def)
  have dist: "distinct (map body (links g))"
    by (simp add: l h0 search_links_POST [OF m] body_link_def)
  have each: "\<forall>l \<in> set (links g).
              href l = BASE_URL e @ ''/search''
                         @ (if req_args req = [] then '''' else ''?'' @ url_encode (req_args req))
              \<and> link_method l = Some ''POST''
              \<and> merge l = Some True
              \<and> body l \<noteq> None
              \<and> body l \<noteq> Some request_json
              \<and> link_body h l = Some (dict_set ''page'' (JInt (link_num pg l)) d)"
    by (auto simp: l h h0 search_links_POST [OF m] body_link_def search_href_def link_body_def
        link_num_def request_json_def)
  show "\<exists>d kw pg. req_body req = Parsed (JObj d)
        \<and> search_query (builtins e) roles req = Inr kw
        \<and> get_collection_items e kw = Inr pg
        \<and> h ! request_json = d
        \<and> distinct (map body (links g))
        \<and> (\<forall>l \<in> set (links g).
              href l = BASE_URL e @ ''/search''
                         @ (if req_args req = [] then '''' else ''?'' @ url_encode (req_args req))
              \<and> link_method l = Some ''POST''
              \<and> merge l = Some True
              \<and> body l \<noteq> None
              \<and> body l \<noteq> Some request_json
              \<and> link_body h l = Some (dict_set ''page'' (JInt (link_num pg l)) d)
              \<and> (\<forall>k. dict_get (dict_set ''page'' (JInt (link_num pg l)) d) k
                      = (if k = ''page'' then Some (JInt (link_num pg l)) else dict_get d k)))"
    using d search_query_Inr [OF p] pg hd dist each
    by (intro exI [of _ d] exI [of _ "search_kwargs roles p"] exI [of _ pg])
      (simp add: dict_get_dict_set)
qed

theorem post_links_carry_body_witness:
  "req_method (example_post [] example_body) = POST
   \<and> stac_search (example_env True True) (example_post [] example_body) [] ''''
       = Inr (example_post_response, example_post_heap)
   \<and> example_post_heap ! request_json = example_body
   \<and> map href (links example_post_response) = [''http://localhost/search'', ''http://localhost/search'']
   \<and> map (link_body example_post_heap) (links example_post_response)
       = [Some (dict_set ''page'' (JInt 3) example_body),
          Some (dict_set ''page'' (JInt 1) example_body)]"
proof -
  let ?req = "example_post [] example_body"
  have m: "req_method ?req = POST"
    by (simp add: example_post_def)
  have "\<exists>d pg. req_body ?req = Parsed (JObj d)
      \<and> (\<exists>kw. get_collection_items (example_env True True) kw = Inr pg)
      \<and> example_post_heap ! request_json = d
      \<and> (\<forall>l \<in> set (links example_post_response).
            href l = BASE_URL (example_env True True) @ ''/search''
                       @ (if req_args ?req = [] then '''' else ''?'' @ url_encode (req_args ?req))
            \<and> link_body example_post_heap l = Some (dict_set ''page'' (JInt (link_num pg l)) d))"
    using m example_post_search
      post_links_carry_body [where e = "example_env True True" and req = ?req and roles = "[]"
        and access_token = "''''" and g = example_post_response and h = example_post_heap]
    by blast
  then have "example_post_heap ! request_json = example_body
      \<and> (\<forall>l \<in> set (links example_post_response).
            href l = ''http://localhost/search''
            \<and> link_body example_post_heap l
                = Some (dict_set ''page'' (JInt (link_num (example_page True True) l)) example_body))"
    by (auto dest!: example_env_page simp: example_post_def example_env_def)
  then show ?thesis
    using m example_post_search
    by (simp add: example_post_response_def link_num_def example_page_def)
qed

end
